theory Spec2Isabelle
  imports Main "HOL-Library.Word"
begin

unbundle bit_operations_syntax

section \<open>Data model of lm-sasl.c\<close>

text \<open>
  \<^verbatim>\<open>AuthType\<close> is a C enum used as a bit mask: the field \<^verbatim>\<open>sasl->auth_type\<close> is 0 after
  \<^verbatim>\<open>g_new0\<close>, and the local accumulator of \<^verbatim>\<open>lm_sasl_authenticate\<close> is built with
  \<^verbatim>\<open>|=\<close>. It is kept as a 32-bit word.
\<close>

type_synonym AuthType = "32 word"

definition AUTH_TYPE_PLAIN :: AuthType where
  "AUTH_TYPE_PLAIN = 1"

definition AUTH_TYPE_DIGEST :: AuthType where
  "AUTH_TYPE_DIGEST = 2"

datatype SaslAuthState =
    SASL_AUTH_STATE_NO_MECH
  | SASL_AUTH_STATE_PLAIN_STARTED
  | SASL_AUTH_STATE_DIGEST_MD5_STARTED
  | SASL_AUTH_STATE_DIGEST_MD5_SENT_AUTH_RESPONSE
  | SASL_AUTH_STATE_DIGEST_MD5_SENT_FINAL_RESPONSE

text \<open>
  \<^verbatim>\<open>struct _LmSASL\<close>. A \<^verbatim>\<open>gchar *\<close> field is a \<open>string option\<close> (\<open>None\<close> is NULL).
  \<open>handler\<close> says whether the result handler pointer is non-NULL; what the handler is
  called with is logged in the world below. The connection and the four message
  handler objects carry no data the functions below read.
\<close>

record LmSASL =
  auth_type :: AuthType
  state :: SaslAuthState
  username :: "string option"
  password :: "string option"
  server :: "string option"
  digest_md5_rspauth :: "string option"
  handler :: bool

text \<open>
  An XML node as the functions read it: its attributes, its text value and its children.
\<close>

datatype LmMessageNode =
  LmMessageNode (node_attributes: "(string \<times> string) list")
                (node_value: "string option")
                (node_children: "LmMessageNode list")

datatype LmMessageType = LM_MESSAGE_TYPE_AUTH | LM_MESSAGE_TYPE_RESPONSE

text \<open>
  An outgoing message: its type, the attributes given to
  \<^verbatim>\<open>lm_message_node_set_attributes\<close> in order (a value may be the NULL pointer), and the
  text given to \<^verbatim>\<open>lm_message_node_set_value\<close>, if any.
\<close>

record LmMessage =
  msg_type :: LmMessageType
  msg_attributes :: "(string \<times> string option) list"
  msg_value :: "string option"

text \<open>
  The world a step runs in: the session, the messages handed to \<^verbatim>\<open>lm_connection_send\<close>
  so far (oldest first), and the calls of the result handler so far (oldest first), each
  with its \<^verbatim>\<open>success\<close> flag and its \<^verbatim>\<open>reason\<close> pointer.
\<close>

record world =
  sasl :: LmSASL
  sent :: "LmMessage list"
  calls :: "(bool \<times> string option) list"

text \<open>
  The primitives of md5.h and base64.h, which are not part of lm-sasl.c, are parameters:
  \<open>md5 X s\<close> is the digest that \<^verbatim>\<open>md5_init; md5_append; md5_finish\<close> write for the bytes
  \<open>s\<close>.
\<close>

record primitives =
  md5 :: "string \<Rightarrow> string"
  base64_encode :: "string \<Rightarrow> string"
  base64_decode :: "string \<Rightarrow> string"

datatype error = AssertNotReached | NullPointer

datatype LmHandlerResult =
  LM_HANDLER_RESULT_REMOVE_MESSAGE | LM_HANDLER_RESULT_ALLOW_MORE_HANDLERS

definition XMPP_NS_SASL_AUTH :: string where
  "XMPP_NS_SASL_AUTH = ''urn:ietf:params:xml:ns:xmpp-sasl''"

definition lm_message_node_get_attribute :: "LmMessageNode \<Rightarrow> string \<Rightarrow> string option" where
  "lm_message_node_get_attribute node name = map_of (node_attributes node) name"

definition lm_message_node_get_value :: "LmMessageNode \<Rightarrow> string option" where
  "lm_message_node_get_value node = node_value node"

text \<open>
  \<^verbatim>\<open>if (sasl->handler) sasl->handler (sasl, sasl->connection, success, reason);\<close>
\<close>

definition call_handler :: "world \<Rightarrow> bool \<Rightarrow> string option \<Rightarrow> world" where
  "call_handler w success reason =
     (if handler (sasl w) then w\<lparr>calls := calls w @ [(success, reason)]\<rparr> else w)"

text \<open>
  \<^verbatim>\<open>lm_connection_send\<close>: the message is handed to the transport; whether the transport
  reports success is an input (\<open>ok\<close>) of each function that sends.
\<close>

definition lm_connection_send :: "world \<Rightarrow> LmMessage \<Rightarrow> world" where
  "lm_connection_send w msg = w\<lparr>sent := sent w @ [msg]\<rparr>"

definition set_state :: "world \<Rightarrow> SaslAuthState \<Rightarrow> world" where
  "set_state w st = w\<lparr>sasl := (sasl w)\<lparr>state := st\<rparr>\<rparr>"

definition set_auth_type :: "world \<Rightarrow> AuthType \<Rightarrow> world" where
  "set_auth_type w a = w\<lparr>sasl := (sasl w)\<lparr>auth_type := a\<rparr>\<rparr>"

text \<open>
  \<^verbatim>\<open>lm_sasl_new\<close>: \<^verbatim>\<open>g_new0\<close> zeroes the structure, so no mechanism is selected
  (\<open>auth_type = 0\<close>), the state is the enum's first value and no expected rspauth is
  stored. The world starts with nothing sent and no handler call.
\<close>

definition lm_sasl_new :: "string option \<Rightarrow> string option \<Rightarrow> string option \<Rightarrow> bool \<Rightarrow> world" where
  "lm_sasl_new user pass srv h =
     \<lparr>sasl = \<lparr>auth_type = 0, state = SASL_AUTH_STATE_NO_MECH, username = user,
              password = pass, server = srv, digest_md5_rspauth = None, handler = h\<rparr>,
      sent = [], calls = []\<rparr>"

section \<open>The DIGEST-MD5 challenge parser\<close>

text \<open>
  A C string is the list of its bytes before the terminating NUL; the end of the list is
  the terminator. \<open>c_string\<close> reads a buffer as a C string: it stops at the first NUL.
\<close>

definition c_string :: "string \<Rightarrow> string" where
  "c_string buf = takeWhile (\<lambda>x. x \<noteq> CHR 0x00) buf"

definition dquote :: char where
  "dquote = CHR 0x22"

definition backslash :: char where
  "backslash = CHR 0x5C"

text \<open>
  \<^verbatim>\<open>strndup_unescaped (str, len)\<close>: the loop runs while the read pointer is before
  \<^verbatim>\<open>str + len\<close>; a backslash advances the read pointer once more before the byte is
  copied, so a backslash that is the last byte of the range copies the byte after the
  range. The first argument is the C string from \<^verbatim>\<open>str\<close> on. Reading the terminator after
  a backslash copies a NUL, which ends the result; the parser never calls the function
  with a range that reaches beyond the string.
\<close>

fun strndup_unescaped :: "string \<Rightarrow> nat \<Rightarrow> string" where
  "strndup_unescaped [] len = []"
| "strndup_unescaped (x # xs) len =
     (if len = 0 then []
      else if x = backslash then
        (case xs of
           [] \<Rightarrow> []
         | y # ys \<Rightarrow> y # strndup_unescaped ys (len - 2))
      else x # strndup_unescaped xs (len - 1))"

text \<open>
  One round of the \<^verbatim>\<open>do ... while\<close> loop of \<^verbatim>\<open>digest_md5_challenge_to_hash\<close>, from
  \<^verbatim>\<open>keystart = c\<close> to the insertion: the key, the value and the cursor after the value (the
  closing quote of a quoted value is stepped over), or \<open>None\<close> for \<^verbatim>\<open>goto error\<close>.
  Each \<^verbatim>\<open>for (; *c != '\0' && *c != x; c++);\<close> is a \<open>takeWhile\<close>/\<open>dropWhile\<close> pair: the bytes
  stepped over and the string at the cursor. The scan for the closing quote stops at the
  first quote byte, whether a backslash precedes it or not.
\<close>

definition parse_directive :: "string \<Rightarrow> (string \<times> string \<times> string) option" where
  "parse_directive c =
     (let key = takeWhile (\<lambda>x. x \<noteq> CHR ''='') c;
          c1 = dropWhile (\<lambda>x. x \<noteq> CHR ''='') c
      in if c1 = [] \<or> key = [] then None
         else
           (let c2 = tl c1 in
            if c2 \<noteq> [] \<and> hd c2 = dquote then
              (let valstart = tl c2;
                   raw = takeWhile (\<lambda>x. x \<noteq> dquote) valstart;
                   c3 = dropWhile (\<lambda>x. x \<noteq> dquote) valstart
               in if c3 = [] \<or> raw = [] then None
                  else Some (key, strndup_unescaped valstart (length raw), tl c3))
            else
              (let raw = takeWhile (\<lambda>x. x \<noteq> CHR '','') c2;
                   c3 = dropWhile (\<lambda>x. x \<noteq> CHR '','') c2
               in if raw = [] then None else Some (key, raw, c3))))"

text \<open>\<^verbatim>\<open>if (*c == ',') c++;\<close>\<close>

definition skip_comma :: "string \<Rightarrow> string" where
  "skip_comma c = (if c \<noteq> [] \<and> hd c = CHR '','' then tl c else c)"

lemma length_tl_dropWhile: "length (tl (dropWhile P xs)) \<le> length xs"
  by (simp add: le_SucI length_dropWhile_le le_diff_conv)

lemma parse_directive_shorter:
  assumes "parse_directive c = Some (key, val, c')"
  shows "length (skip_comma c') < length c"
proof -
  define c1 where "c1 = dropWhile (\<lambda>x. x \<noteq> CHR ''='') c"
  have c1: "c1 \<noteq> []"
    using assms by (auto simp: parse_directive_def Let_def c1_def split: if_splits)
  have l1: "length c1 \<le> length c"
    by (simp add: c1_def length_dropWhile_le)
  have l2: "length (tl c1) < length c"
    using c1 l1 by (cases c1) auto
  have "length c' \<le> length (tl c1)"
    using assms
    by (auto simp: parse_directive_def Let_def c1_def [symmetric] split: if_splits
         intro: order_trans [OF length_tl_dropWhile] order_trans [OF length_dropWhile_le])
  moreover have "length (skip_comma c') \<le> length c'"
    by (simp add: skip_comma_def)
  ultimately show ?thesis
    using l2 by linarith
qed

text \<open>
  The loop: \<^verbatim>\<open>g_hash_table_insert\<close> replaces the value of a key that is already in the
  table; the loop goes on \<^verbatim>\<open>while (*c != '\0')\<close>. Every round moves the cursor forward, so
  the loop ends.
\<close>

function digest_md5_parse_loop ::
  "string \<Rightarrow> (string \<rightharpoonup> string) \<Rightarrow> (string \<rightharpoonup> string) option" where
  "digest_md5_parse_loop c result =
     (case parse_directive c of
        None \<Rightarrow> None
      | Some (key, val, c') \<Rightarrow>
          if skip_comma c' = [] then Some (result(key \<mapsto> val))
          else digest_md5_parse_loop (skip_comma c') (result(key \<mapsto> val)))"
  by pat_completeness auto
termination
  by (relation "measure (\<lambda>(c, result). length c)") (auto dest: parse_directive_shorter)

declare digest_md5_parse_loop.simps [simp del]

definition digest_md5_challenge_to_hash :: "string \<Rightarrow> (string \<rightharpoonup> string) option" where
  "digest_md5_challenge_to_hash challenge = digest_md5_parse_loop challenge Map.empty"

text \<open>
  Directive strings as the claims build them. A quoted directive is \<^verbatim>\<open>k="v"\<close>, an
  unquoted one \<^verbatim>\<open>k=v\<close>; \<open>directive_ok\<close> says that the key is not empty and has no
  \<^verbatim>\<open>=\<close>, that the value is not empty, that the text between the quotes has no quote byte,
  and that an unquoted value has no comma and does not start with a quote.
  \<open>render_directives\<close> writes each directive followed by a comma.
\<close>

datatype directive = Quoted string string | Unquoted string string

fun directive_key :: "directive \<Rightarrow> string" where
  "directive_key (Quoted k v) = k"
| "directive_key (Unquoted k v) = k"

fun render_directive :: "directive \<Rightarrow> string" where
  "render_directive (Quoted k v) = k @ ''='' @ [dquote] @ v @ [dquote]"
| "render_directive (Unquoted k v) = k @ ''='' @ v"

fun directive_ok :: "directive \<Rightarrow> bool" where
  "directive_ok (Quoted k v) =
     (k \<noteq> [] \<and> CHR ''='' \<notin> set k \<and> v \<noteq> [] \<and> dquote \<notin> set v)"
| "directive_ok (Unquoted k v) =
     (k \<noteq> [] \<and> CHR ''='' \<notin> set k \<and> v \<noteq> [] \<and> CHR '','' \<notin> set v \<and> hd v \<noteq> dquote)"

fun render_directives :: "directive list \<Rightarrow> string" where
  "render_directives [] = []"
| "render_directives (d # ds) = render_directive d @ '','' @ render_directives ds"

text \<open>
  The malformed directives of the claim, each standing where a directive starts and
  running to the end of the string: an empty key (\<^verbatim>\<open>=\<close> first, anything after it), a key
  with no \<^verbatim>\<open>=\<close> after it, a quoted value with no closing quote, and an unquoted value that
  is empty (the \<^verbatim>\<open>=\<close> is followed by the end of the string or by a comma).
\<close>

datatype malformed =
    EmptyKey string
  | NoEquals string
  | UnterminatedQuote string string
  | EmptyValue string string

fun render_malformed :: "malformed \<Rightarrow> string" where
  "render_malformed (EmptyKey rest) = ''='' @ rest"
| "render_malformed (NoEquals k) = k"
| "render_malformed (UnterminatedQuote k v) = k @ ''='' @ [dquote] @ v"
| "render_malformed (EmptyValue k rest) = k @ ''='' @ rest"

fun malformed_ok :: "malformed \<Rightarrow> bool" where
  "malformed_ok (EmptyKey rest) = True"
| "malformed_ok (NoEquals k) = (k \<noteq> [] \<and> CHR ''='' \<notin> set k)"
| "malformed_ok (UnterminatedQuote k v) =
     (k \<noteq> [] \<and> CHR ''='' \<notin> set k \<and> dquote \<notin> set v)"
| "malformed_ok (EmptyValue k rest) =
     (k \<noteq> [] \<and> CHR ''='' \<notin> set k \<and> (rest = [] \<or> hd rest = CHR '',''))"

text \<open>
  A challenge as the specification builds it, \<^verbatim>\<open>k1="v1",k2=v2\<close>: the directives separated
  by commas. \<open>table_of\<close> is the table it stands for, a later directive replacing an
  earlier one with the same key. \<open>plain_value\<close> says that the text between the quotes has
  no backslash.
\<close>

fun directive_value :: "directive \<Rightarrow> string" where
  "directive_value (Quoted k v) = v"
| "directive_value (Unquoted k v) = v"

fun plain_value :: "directive \<Rightarrow> bool" where
  "plain_value (Quoted k v) = (backslash \<notin> set v)"
| "plain_value (Unquoted k v) = True"

fun render_challenge :: "directive list \<Rightarrow> string" where
  "render_challenge [] = []"
| "render_challenge [d] = render_directive d"
| "render_challenge (d # ds) = render_directive d @ '','' @ render_challenge ds"

fun table_of :: "directive list \<Rightarrow> (string \<rightharpoonup> string) \<Rightarrow> (string \<rightharpoonup> string)" where
  "table_of [] t = t"
| "table_of (d # ds) t = table_of ds (t(directive_key d \<mapsto> directive_value d))"

section \<open>DIGEST-MD5 response and verification\<close>

text \<open>
  \<^verbatim>\<open>md5_hex_hash\<close>: the 16 bytes of the digest buffer, each printed with \<^verbatim>\<open>%02x\<close>.
\<close>

definition hex_digit :: "nat \<Rightarrow> char" where
  "hex_digit n = ''0123456789abcdef'' ! n"

definition hex_byte :: "char \<Rightarrow> string" where
  "hex_byte b = [hex_digit ((of_char b :: nat) div 16), hex_digit ((of_char b :: nat) mod 16)]"

definition md5_hex_hash :: "primitives \<Rightarrow> string \<Rightarrow> string" where
  "md5_hex_hash X val = concat (map hex_byte (take 16 (md5 X val)))"

text \<open>
  \<^verbatim>\<open>%s\<close> of \<^verbatim>\<open>g_strdup_printf\<close> and \<^verbatim>\<open>g_string_append_printf\<close>; the C library prints a NULL
  pointer as \<^verbatim>\<open>(null)\<close>. Only \<^verbatim>\<open>sasl->server\<close> can reach a \<^verbatim>\<open>%s\<close> as NULL.
\<close>

definition printf_s :: "string option \<Rightarrow> string" where
  "printf_s p = (case p of None \<Rightarrow> ''(null)'' | Some s \<Rightarrow> s)"

text \<open>
  \<^verbatim>\<open>md5_prepare_response\<close>. \<open>cnonce\<close> is what \<^verbatim>\<open>digest_md5_generate_cnonce\<close> returned (the
  base64 text of eight \<^verbatim>\<open>g_random_int\<close> values), an input of the model. The test
  \<^verbatim>\<open>nonce == NULL || nonce == '\0'\<close> compares the pointer with NULL twice, so it is the
  \<open>None\<close> case of the lookup and nothing else. \<open>a1\<close> is first printed with sixteen
  placeholder bytes, its length is taken, and \<^verbatim>\<open>memcpy\<close> then writes the 16 digest bytes
  over the placeholder.
\<close>

definition md5_prepare_response ::
  "primitives \<Rightarrow> string \<Rightarrow> world \<Rightarrow> (string \<rightharpoonup> string) \<Rightarrow> string option \<times> world" where
  "md5_prepare_response X cnonce w challenge =
     (case (username (sasl w), password (sasl w)) of
        (Some user, Some pass) \<Rightarrow>
          (case challenge ''nonce'' of
             None \<Rightarrow> (None, call_handler w False (Some ''server error''))
           | Some nonce \<Rightarrow>
               (let realm = (case challenge ''realm'' of
                               None \<Rightarrow> printf_s (server (sasl w))
                             | Some r \<Rightarrow> r);
                    response0 =
                      ''username='' @ [dquote] @ user @ [dquote]
                      @ '',realm='' @ [dquote] @ realm @ [dquote]
                      @ '',digest-uri='' @ [dquote] @ ''xmpp/'' @ realm @ [dquote]
                      @ '',nonce='' @ [dquote] @ nonce @ [dquote] @ '',nc=00000001''
                      @ '',cnonce='' @ [dquote] @ cnonce @ [dquote]
                      @ '',qop=auth,charset=utf-8'';
                    tmp = user @ '':'' @ realm @ '':'' @ pass;
                    digest_md5 = take 16 (md5 X tmp);
                    a1_printed = ''0123456789012345:'' @ nonce @ '':'' @ cnonce;
                    a1 = digest_md5 @ drop 16 a1_printed;
                    a1h = md5_hex_hash X a1;
                    a2 = ''AUTHENTICATE:xmpp/'' @ realm;
                    a2h = md5_hex_hash X a2;
                    kd = a1h @ '':'' @ nonce @ '':00000001:'' @ cnonce @ '':auth:'' @ a2h;
                    kdh = md5_hex_hash X kd;
                    response = response0 @ '',response='' @ kdh;
                    a2' = '':xmpp/'' @ realm;
                    a2h' = md5_hex_hash X a2';
                    kd' = a1h @ '':'' @ nonce @ '':00000001:'' @ cnonce @ '':auth:'' @ a2h';
                    w' = w\<lparr>sasl := (sasl w)\<lparr>digest_md5_rspauth := Some (md5_hex_hash X kd')\<rparr>\<rparr>
                in (Some response, w')))
      | _ \<Rightarrow> (None, call_handler w False (Some ''no username/password provided'')))"

text \<open>
  \<^verbatim>\<open>digest_md5_send_initial_response\<close>: the state is assigned after the send, and only
  when the send succeeded.
\<close>

definition digest_md5_send_initial_response ::
  "primitives \<Rightarrow> string \<Rightarrow> bool \<Rightarrow> world \<Rightarrow> (string \<rightharpoonup> string) \<Rightarrow> bool \<times> world" where
  "digest_md5_send_initial_response X cnonce ok w challenge =
     (case md5_prepare_response X cnonce w challenge of
        (None, w1) \<Rightarrow> (False, w1)
      | (Some response, w1) \<Rightarrow>
          (let response64 = base64_encode X response;
               msg = \<lparr>msg_type = LM_MESSAGE_TYPE_RESPONSE,
                      msg_attributes = [(''xmlns'', Some XMPP_NS_SASL_AUTH)],
                      msg_value = Some response64\<rparr>;
               w2 = lm_connection_send w1 msg
           in if \<not> ok then (False, w2)
              else (True, set_state w2 SASL_AUTH_STATE_DIGEST_MD5_SENT_AUTH_RESPONSE)))"

text \<open>
  \<^verbatim>\<open>digest_md5_check_server_response\<close>. Both rejections call the handler with
  \<^verbatim>\<open>TRUE\<close> as the success flag. \<^verbatim>\<open>strcmp\<close> on a NULL \<^verbatim>\<open>sasl->digest_md5_rspauth\<close>
  dereferences a NULL pointer.
\<close>

definition digest_md5_check_server_response ::
  "bool \<Rightarrow> world \<Rightarrow> (string \<rightharpoonup> string) \<Rightarrow> error + (bool \<times> world)" where
  "digest_md5_check_server_response ok w challenge =
     (case challenge ''rspauth'' of
        None \<Rightarrow> Inr (False, call_handler w True (Some ''server error''))
      | Some rspauth \<Rightarrow>
          (case digest_md5_rspauth (sasl w) of
             None \<Rightarrow> Inl NullPointer
           | Some expected \<Rightarrow>
               if expected \<noteq> rspauth then
                 Inr (False, call_handler w True (Some ''server error''))
               else
                 (let msg = \<lparr>msg_type = LM_MESSAGE_TYPE_RESPONSE,
                             msg_attributes = [(''xmlns'', Some XMPP_NS_SASL_AUTH)],
                             msg_value = None\<rparr>;
                      w1 = lm_connection_send w msg
                  in if \<not> ok then Inr (False, w1)
                     else Inr (True, set_state w1
                                 SASL_AUTH_STATE_DIGEST_MD5_SENT_FINAL_RESPONSE))))"

text \<open>
  \<^verbatim>\<open>digest_md5_handle_challenge\<close>: a node without text is dropped before anything else;
  the decoded text is read as a C string; the results of the two state handlers are not
  looked at.
\<close>

definition digest_md5_handle_challenge ::
  "primitives \<Rightarrow> string \<Rightarrow> bool \<Rightarrow> world \<Rightarrow> LmMessageNode \<Rightarrow> error + (bool \<times> world)" where
  "digest_md5_handle_challenge X cnonce ok w node =
     (case lm_message_node_get_value node of
        None \<Rightarrow> Inr (False, w)
      | Some encoded \<Rightarrow>
          (case digest_md5_challenge_to_hash (c_string (base64_decode X encoded)) of
             None \<Rightarrow> Inr (False, call_handler w False (Some ''server error''))
           | Some h \<Rightarrow>
               (case state (sasl w) of
                  SASL_AUTH_STATE_DIGEST_MD5_STARTED \<Rightarrow>
                    Inr (True, snd (digest_md5_send_initial_response X cnonce ok w h))
                | SASL_AUTH_STATE_DIGEST_MD5_SENT_AUTH_RESPONSE \<Rightarrow>
                    (case digest_md5_check_server_response ok w h of
                       Inl e \<Rightarrow> Inl e
                     | Inr (r, w1) \<Rightarrow> Inr (True, w1))
                | _ \<Rightarrow> Inr (False, call_handler w False (Some ''server error'')))))"

section \<open>The message handlers\<close>

text \<open>
  Each handler first compares the \<^verbatim>\<open>xmlns\<close> attribute of the message node with the SASL
  namespace. \<^verbatim>\<open>g_assert_not_reached\<close> aborts the process: the handler has no result then.
\<close>

definition challenge_cb ::
  "primitives \<Rightarrow> string \<Rightarrow> bool \<Rightarrow> world \<Rightarrow> LmMessageNode \<Rightarrow> error + (LmHandlerResult \<times> world)" where
  "challenge_cb X cnonce ok w node =
     (case lm_message_node_get_attribute node ''xmlns'' of
        None \<Rightarrow> Inr (LM_HANDLER_RESULT_ALLOW_MORE_HANDLERS, w)
      | Some ns \<Rightarrow>
          if ns \<noteq> XMPP_NS_SASL_AUTH then Inr (LM_HANDLER_RESULT_ALLOW_MORE_HANDLERS, w)
          else if auth_type (sasl w) = AUTH_TYPE_PLAIN then
            Inr (LM_HANDLER_RESULT_REMOVE_MESSAGE,
                 call_handler w False (Some ''server error''))
          else if auth_type (sasl w) = AUTH_TYPE_DIGEST then
            (case digest_md5_handle_challenge X cnonce ok w node of
               Inl e \<Rightarrow> Inl e
             | Inr (r, w1) \<Rightarrow> Inr (LM_HANDLER_RESULT_REMOVE_MESSAGE, w1))
          else Inl AssertNotReached)"

text \<open>
  \<^verbatim>\<open>success_cb\<close>: after the \<^verbatim>\<open>switch\<close>, whose branches end in \<^verbatim>\<open>break\<close>, the handler is
  called with \<^verbatim>\<open>TRUE\<close> and a NULL reason.
\<close>

definition success_cb :: "world \<Rightarrow> LmMessageNode \<Rightarrow> error + (LmHandlerResult \<times> world)" where
  "success_cb w node =
     (case lm_message_node_get_attribute node ''xmlns'' of
        None \<Rightarrow> Inr (LM_HANDLER_RESULT_ALLOW_MORE_HANDLERS, w)
      | Some ns \<Rightarrow>
          if ns \<noteq> XMPP_NS_SASL_AUTH then Inr (LM_HANDLER_RESULT_ALLOW_MORE_HANDLERS, w)
          else if auth_type (sasl w) = AUTH_TYPE_PLAIN then
            (let w1 = (if state (sasl w) \<noteq> SASL_AUTH_STATE_PLAIN_STARTED
                       then call_handler w False (Some ''server error'') else w)
             in Inr (LM_HANDLER_RESULT_REMOVE_MESSAGE, call_handler w1 True None))
          else if auth_type (sasl w) = AUTH_TYPE_DIGEST then
            (let w1 = (if state (sasl w) \<noteq> SASL_AUTH_STATE_DIGEST_MD5_SENT_FINAL_RESPONSE
                       then call_handler w False (Some ''server error'') else w)
             in Inr (LM_HANDLER_RESULT_REMOVE_MESSAGE, call_handler w1 True None))
          else Inl AssertNotReached)"

text \<open>
  \<^verbatim>\<open>failure_cb\<close>: the reason is the text of the first child of the node when there is a
  child and it has text, and \<^verbatim>\<open>"unknown reason"\<close> otherwise.
\<close>

definition failure_cb :: "world \<Rightarrow> LmMessageNode \<Rightarrow> LmHandlerResult \<times> world" where
  "failure_cb w node =
     (case lm_message_node_get_attribute node ''xmlns'' of
        None \<Rightarrow> (LM_HANDLER_RESULT_ALLOW_MORE_HANDLERS, w)
      | Some ns \<Rightarrow>
          if ns \<noteq> XMPP_NS_SASL_AUTH then (LM_HANDLER_RESULT_ALLOW_MORE_HANDLERS, w)
          else
            (let reason = (case node_children node of
                             [] \<Rightarrow> ''unknown reason''
                           | child # others \<Rightarrow>
                               (case lm_message_node_get_value child of
                                  None \<Rightarrow> ''unknown reason''
                                | Some r \<Rightarrow> r))
             in (LM_HANDLER_RESULT_REMOVE_MESSAGE, call_handler w False (Some reason))))"

section \<open>Mechanism negotiation\<close>

text \<open>
  \<^verbatim>\<open>lm_sasl_start\<close>. The state is assigned where the mechanism name is chosen, before the
  credentials are checked and before the message is sent. The function returns what
  \<^verbatim>\<open>lm_connection_send\<close> returned.
\<close>

definition lm_sasl_start :: "primitives \<Rightarrow> bool \<Rightarrow> world \<Rightarrow> bool \<times> world" where
  "lm_sasl_start X ok w =
     (if auth_type (sasl w) = AUTH_TYPE_PLAIN then
        (let w1 = set_state w SASL_AUTH_STATE_PLAIN_STARTED in
         case (username (sasl w1), password (sasl w1)) of
           (Some u, Some p) \<Rightarrow>
             (let cstr = base64_encode X (CHR 0x00 # u @ CHR 0x00 # p);
                  auth_msg = \<lparr>msg_type = LM_MESSAGE_TYPE_AUTH,
                    msg_attributes =
                      [(''xmlns:ga'', Some ''http://www.google.com/talk/protocol/auth''),
                       (''ga:client-uses-full-bind-result'', Some ''true''),
                       (''xmlns'', Some XMPP_NS_SASL_AUTH),
                       (''mechanism'', Some ''PLAIN'')],
                    msg_value = Some cstr\<rparr>
              in (ok, lm_connection_send w1 auth_msg))
         | _ \<Rightarrow> (False, call_handler w1 False (Some ''no username/password provided'')))
      else if auth_type (sasl w) = AUTH_TYPE_DIGEST then
        (let w1 = set_state w SASL_AUTH_STATE_DIGEST_MD5_STARTED;
             auth_msg = \<lparr>msg_type = LM_MESSAGE_TYPE_AUTH,
               msg_attributes =
                 [(''xmlns'', Some XMPP_NS_SASL_AUTH), (''mechanism'', Some ''DIGEST-MD5'')],
               msg_value = None\<rparr>
         in (ok, lm_connection_send w1 auth_msg))
      else
        (let auth_msg = \<lparr>msg_type = LM_MESSAGE_TYPE_AUTH,
               msg_attributes = [(''xmlns'', Some XMPP_NS_SASL_AUTH), (''mechanism'', None)],
               msg_value = None\<rparr>
         in (ok, lm_connection_send w auth_msg)))"

text \<open>
  The loop of \<^verbatim>\<open>lm_sasl_authenticate\<close> over the children of the mechanisms node: a child
  without a value is skipped, \<^verbatim>\<open>strcmp\<close> compares byte for byte, any other name is only
  logged.
\<close>

fun scan_mechanisms :: "LmMessageNode list \<Rightarrow> AuthType \<Rightarrow> AuthType" where
  "scan_mechanisms [] a = a"
| "scan_mechanisms (m # ms) a =
     (case lm_message_node_get_value m of
        None \<Rightarrow> scan_mechanisms ms a
      | Some name \<Rightarrow>
          if name = ''PLAIN'' then scan_mechanisms ms (a OR AUTH_TYPE_PLAIN)
          else if name = ''DIGEST-MD5'' then scan_mechanisms ms (a OR AUTH_TYPE_DIGEST)
          else scan_mechanisms ms a)"

definition lm_sasl_authenticate ::
  "primitives \<Rightarrow> bool \<Rightarrow> world \<Rightarrow> LmMessageNode \<Rightarrow> error + (bool \<times> world)" where
  "lm_sasl_authenticate X ok w mechanisms =
     (case lm_message_node_get_attribute mechanisms ''xmlns'' of
        None \<Rightarrow> Inr (False, w)
      | Some ns \<Rightarrow>
          if ns \<noteq> XMPP_NS_SASL_AUTH then Inr (False, w)
          else
            (let a = scan_mechanisms (node_children mechanisms) 0 in
             if a = 0 then Inr (False, w)
             else if a AND AUTH_TYPE_DIGEST \<noteq> 0 then
               Inr (lm_sasl_start X ok (set_auth_type w AUTH_TYPE_DIGEST))
             else if a AND AUTH_TYPE_PLAIN \<noteq> 0 then
               Inr (lm_sasl_start X ok (set_auth_type w AUTH_TYPE_PLAIN))
             else Inl AssertNotReached))"

text \<open>
  \<^verbatim>\<open>features_cb\<close>: \<open>mechanisms\<close> is what \<^verbatim>\<open>lm_message_node_find_child\<close> found for the
  name \<^verbatim>\<open>mechanisms\<close>, if anything; the result of \<^verbatim>\<open>lm_sasl_authenticate\<close> is not looked at.
\<close>

definition features_cb ::
  "primitives \<Rightarrow> bool \<Rightarrow> world \<Rightarrow> LmMessageNode option \<Rightarrow> error + (LmHandlerResult \<times> world)" where
  "features_cb X ok w mechanisms =
     (case mechanisms of
        None \<Rightarrow> Inr (LM_HANDLER_RESULT_ALLOW_MORE_HANDLERS, w)
      | Some m \<Rightarrow>
          (case lm_sasl_authenticate X ok w m of
             Inl e \<Rightarrow> Inl e
           | Inr (r, w1) \<Rightarrow> Inr (LM_HANDLER_RESULT_ALLOW_MORE_HANDLERS, w1)))"

section \<open>Delivery of incoming messages\<close>

text \<open>
  \<^verbatim>\<open>lm_sasl_new\<close> registers the four handlers, one per message type, and nothing in the
  file unregisters the success and the failure handler. A delivery is an incoming message
  together with the client nonce the random generator would give and the answer the
  transport would give to a send during its handling. Messages are delivered in order;
  an abort ends the run.
\<close>

datatype incoming =
    Features "LmMessageNode option"
  | Challenge LmMessageNode
  | Success LmMessageNode
  | Failure LmMessageNode

fun deliver :: "primitives \<Rightarrow> world \<Rightarrow> incoming \<times> string \<times> bool \<Rightarrow> error + world" where
  "deliver X w (Features mechanisms, cnonce, ok) = map_sum id snd (features_cb X ok w mechanisms)"
| "deliver X w (Challenge node, cnonce, ok) = map_sum id snd (challenge_cb X cnonce ok w node)"
| "deliver X w (Success node, cnonce, ok) = map_sum id snd (success_cb w node)"
| "deliver X w (Failure node, cnonce, ok) = Inr (snd (failure_cb w node))"

fun deliver_all :: "primitives \<Rightarrow> world \<Rightarrow> (incoming \<times> string \<times> bool) list \<Rightarrow> error + world" where
  "deliver_all X w [] = Inr w"
| "deliver_all X w (d # ds) =
     (case deliver X w d of
        Inl e \<Rightarrow> Inl e
      | Inr w1 \<Rightarrow> deliver_all X w1 ds)"

section \<open>The derivation as the specification words it\<close>

text \<open>
  The response derivation in the words of the specification, to be compared with
  \<^verbatim>\<open>md5_prepare_response\<close>: \<open>hex\<close> prints every byte as two lower-case hexadecimal
  digits, \<open>HA1 = hex (MD5 (MD5 (U:R:P) || : || N || : || CN))\<close> with the inner digest as
  raw bytes, \<open>HA2 = hex (MD5 (AUTHENTICATE:xmpp/ || R))\<close>,
  \<open>response = hex (MD5 (HA1 : N :00000001: CN :auth: HA2))\<close>, the expected rspauth the same
  with \<open>:xmpp/ || R\<close> in the place of A2, and the directive string with the fields in the
  order the specification lists them.
\<close>

definition hex :: "string \<Rightarrow> string" where
  "hex bytes = concat (map hex_byte bytes)"

definition spec_HA1 ::
  "primitives \<Rightarrow> string \<Rightarrow> string \<Rightarrow> string \<Rightarrow> string \<Rightarrow> string \<Rightarrow> string" where
  "spec_HA1 X U R P N CN =
     hex (md5 X (md5 X (U @ '':'' @ R @ '':'' @ P) @ '':'' @ N @ '':'' @ CN))"

definition spec_HA2 :: "primitives \<Rightarrow> string \<Rightarrow> string" where
  "spec_HA2 X R = hex (md5 X (''AUTHENTICATE:xmpp/'' @ R))"

definition spec_response ::
  "primitives \<Rightarrow> string \<Rightarrow> string \<Rightarrow> string \<Rightarrow> string \<Rightarrow> string \<Rightarrow> string" where
  "spec_response X U R P N CN =
     hex (md5 X (spec_HA1 X U R P N CN @ '':'' @ N @ '':00000001:'' @ CN @ '':auth:''
                 @ spec_HA2 X R))"

definition spec_expected_rspauth ::
  "primitives \<Rightarrow> string \<Rightarrow> string \<Rightarrow> string \<Rightarrow> string \<Rightarrow> string \<Rightarrow> string" where
  "spec_expected_rspauth X U R P N CN =
     hex (md5 X (spec_HA1 X U R P N CN @ '':'' @ N @ '':00000001:'' @ CN @ '':auth:''
                 @ hex (md5 X ('':xmpp/'' @ R))))"

definition spec_directive_string ::
  "string \<Rightarrow> string \<Rightarrow> string \<Rightarrow> string \<Rightarrow> string \<Rightarrow> string" where
  "spec_directive_string U R N CN response =
     ''username='' @ [dquote] @ U @ [dquote] @ '',realm='' @ [dquote] @ R @ [dquote]
     @ '',digest-uri='' @ [dquote] @ ''xmpp/'' @ R @ [dquote]
     @ '',nonce='' @ [dquote] @ N @ [dquote] @ '',nc=00000001,cnonce='' @ [dquote] @ CN @ [dquote]
     @ '',qop=auth,charset=utf-8,response='' @ response"

section \<open>Concrete inputs\<close>

text \<open>
  Concrete inputs for the closed theorems: a mechanisms node offering the given names, a
  session with credentials and a handler, and stand-ins for the primitives (the stand-in
  digest is 16 bytes long and depends on its input). \<open>outcome\<close> reads off a run the
  handler calls, the final state and the number of messages handed to the transport.
\<close>

definition mechanisms_node :: "string list \<Rightarrow> LmMessageNode" where
  "mechanisms_node names =
     LmMessageNode [(''xmlns'', XMPP_NS_SASL_AUTH)] None
       (map (\<lambda>n. LmMessageNode [] (Some n) []) names)"

definition example_world :: world where
  "example_world = lm_sasl_new (Some ''chris'') (Some ''secret'') (Some ''example.org'') True"

definition pad16 :: "string \<Rightarrow> string" where
  "pad16 s = take 16 (s @ ''0123456789abcdef'')"

definition example_primitives :: primitives where
  "example_primitives =
     \<lparr>md5 = (\<lambda>s. pad16 (take 8 (rev s) @ take 8 s)),
      base64_encode = (\<lambda>s. ''b64:'' @ s),
      base64_decode = (\<lambda>s. drop 4 s)\<rparr>"

definition sasl_node :: "string option \<Rightarrow> LmMessageNode" where
  "sasl_node text = LmMessageNode [(''xmlns'', XMPP_NS_SASL_AUTH)] text []"

definition first_challenge :: LmMessageNode where
  "first_challenge =
     sasl_node (Some (''b64:nonce='' @ [dquote] @ ''OA6MG9tEQGm2hh'' @ [dquote]
       @ '',realm='' @ [dquote] @ ''elwood.innosoft.com'' @ [dquote] @ '',qop=auth''))"

definition outcome :: "error + world \<Rightarrow> error + (bool \<times> string option) list \<times> SaslAuthState \<times> nat" where
  "outcome r = map_sum id (\<lambda>w. (calls w, state (sasl w), length (sent w))) r"

definition example_digest_world :: "SaslAuthState \<Rightarrow> string option \<Rightarrow> world" where
  "example_digest_world st rsp =
     example_world\<lparr>sasl := (sasl example_world)
       \<lparr>auth_type := AUTH_TYPE_DIGEST, state := st, digest_md5_rspauth := rsp\<rparr>\<rparr>"

definition example_plain_world :: "SaslAuthState \<Rightarrow> world" where
  "example_plain_world st =
     example_world\<lparr>sasl := (sasl example_world)\<lparr>auth_type := AUTH_TYPE_PLAIN, state := st\<rparr>\<rparr>"

lemmas example_defs =
  example_digest_world_def example_plain_world_def example_world_def lm_sasl_new_def sasl_node_def
  example_primitives_def pad16_def lm_message_node_get_attribute_def lm_message_node_get_value_def
  mechanisms_node_def

lemmas step_defs =
  call_handler_def lm_connection_send_def set_state_def set_auth_type_def
  AUTH_TYPE_PLAIN_def AUTH_TYPE_DIGEST_def

lemmas parse_defs =
  c_string_def digest_md5_challenge_to_hash_def digest_md5_parse_loop.simps
  parse_directive_def skip_comma_def dquote_def backslash_def

section \<open>Negotiation: proofs\<close>

lemma scan_mechanisms_eq:
  "scan_mechanisms ms a =
     a OR (if Some ''PLAIN'' \<in> node_value ` set ms then AUTH_TYPE_PLAIN else 0)
       OR (if Some ''DIGEST-MD5'' \<in> node_value ` set ms then AUTH_TYPE_DIGEST else 0)"
proof (induction ms arbitrary: a)
  case Nil
  show ?case by simp
next
  case (Cons m ms)
  show ?case
    by (cases "node_value m")
       (auto simp: Cons.IH lm_message_node_get_value_def ac_simps)
qed

lemma lm_sasl_start_auth_type:
  "auth_type (sasl (snd (lm_sasl_start X ok w))) = auth_type (sasl w)"
  by (simp add: lm_sasl_start_def set_state_def lm_connection_send_def call_handler_def Let_def
           split: option.split)

lemma lm_sasl_start_state:
  "state (sasl (snd (lm_sasl_start X ok w))) =
     (if auth_type (sasl w) = AUTH_TYPE_PLAIN then SASL_AUTH_STATE_PLAIN_STARTED
      else if auth_type (sasl w) = AUTH_TYPE_DIGEST then SASL_AUTH_STATE_DIGEST_MD5_STARTED
      else state (sasl w))"
  by (simp add: lm_sasl_start_def set_state_def lm_connection_send_def call_handler_def Let_def
           split: option.split)

text \<open>
  Claim C5. Let the mechanisms node carry the SASL namespace, and let the names be the
  values of its children, in any order and with any other names among them. If
  "DIGEST-MD5" is among the names, \<^verbatim>\<open>lm_sasl_authenticate\<close> selects AUTH_TYPE_DIGEST and
  starts DIGEST-MD5; if "PLAIN" is and "DIGEST-MD5" is not, it selects AUTH_TYPE_PLAIN and
  starts PLAIN; if neither is, it returns FALSE and the session, the sent messages and
  the handler calls are what they were.
\<close>

theorem negotiation_selects_mechanism:
  assumes ns: "lm_message_node_get_attribute mechanisms ''xmlns'' = Some XMPP_NS_SASL_AUTH"
  shows "(Some ''DIGEST-MD5'' \<in> node_value ` set (node_children mechanisms) \<longrightarrow>
            (\<exists>r w'. lm_sasl_authenticate X ok w mechanisms = Inr (r, w')
               \<and> auth_type (sasl w') = AUTH_TYPE_DIGEST
               \<and> state (sasl w') = SASL_AUTH_STATE_DIGEST_MD5_STARTED))
       \<and> (Some ''PLAIN'' \<in> node_value ` set (node_children mechanisms)
            \<and> Some ''DIGEST-MD5'' \<notin> node_value ` set (node_children mechanisms) \<longrightarrow>
            (\<exists>r w'. lm_sasl_authenticate X ok w mechanisms = Inr (r, w')
               \<and> auth_type (sasl w') = AUTH_TYPE_PLAIN
               \<and> state (sasl w') = SASL_AUTH_STATE_PLAIN_STARTED))
       \<and> (Some ''PLAIN'' \<notin> node_value ` set (node_children mechanisms)
            \<and> Some ''DIGEST-MD5'' \<notin> node_value ` set (node_children mechanisms) \<longrightarrow>
            lm_sasl_authenticate X ok w mechanisms = Inr (False, w))"
proof (intro conjI impI)
  assume d: "Some ''DIGEST-MD5'' \<in> node_value ` set (node_children mechanisms)"
  have "lm_sasl_authenticate X ok w mechanisms =
          Inr (lm_sasl_start X ok (set_auth_type w AUTH_TYPE_DIGEST))"
    using ns d
    by (simp add: lm_sasl_authenticate_def scan_mechanisms_eq AUTH_TYPE_PLAIN_def
          AUTH_TYPE_DIGEST_def)
  moreover have "auth_type (sasl (set_auth_type w AUTH_TYPE_DIGEST)) = AUTH_TYPE_DIGEST"
    by (simp add: set_auth_type_def)
  ultimately show "\<exists>r w'. lm_sasl_authenticate X ok w mechanisms = Inr (r, w')
               \<and> auth_type (sasl w') = AUTH_TYPE_DIGEST
               \<and> state (sasl w') = SASL_AUTH_STATE_DIGEST_MD5_STARTED"
    using lm_sasl_start_auth_type [of X ok "set_auth_type w AUTH_TYPE_DIGEST"]
          lm_sasl_start_state [of X ok "set_auth_type w AUTH_TYPE_DIGEST"]
    by (cases "lm_sasl_start X ok (set_auth_type w AUTH_TYPE_DIGEST)")
       (simp add: AUTH_TYPE_PLAIN_def AUTH_TYPE_DIGEST_def)
next
  assume p: "Some ''PLAIN'' \<in> node_value ` set (node_children mechanisms)
            \<and> Some ''DIGEST-MD5'' \<notin> node_value ` set (node_children mechanisms)"
  have "lm_sasl_authenticate X ok w mechanisms =
          Inr (lm_sasl_start X ok (set_auth_type w AUTH_TYPE_PLAIN))"
    using ns p
    by (simp add: lm_sasl_authenticate_def scan_mechanisms_eq AUTH_TYPE_PLAIN_def
          AUTH_TYPE_DIGEST_def)
  moreover have "auth_type (sasl (set_auth_type w AUTH_TYPE_PLAIN)) = AUTH_TYPE_PLAIN"
    by (simp add: set_auth_type_def)
  ultimately show "\<exists>r w'. lm_sasl_authenticate X ok w mechanisms = Inr (r, w')
               \<and> auth_type (sasl w') = AUTH_TYPE_PLAIN
               \<and> state (sasl w') = SASL_AUTH_STATE_PLAIN_STARTED"
    using lm_sasl_start_auth_type [of X ok "set_auth_type w AUTH_TYPE_PLAIN"]
          lm_sasl_start_state [of X ok "set_auth_type w AUTH_TYPE_PLAIN"]
    by (cases "lm_sasl_start X ok (set_auth_type w AUTH_TYPE_PLAIN)") simp
next
  assume n: "Some ''PLAIN'' \<notin> node_value ` set (node_children mechanisms)
            \<and> Some ''DIGEST-MD5'' \<notin> node_value ` set (node_children mechanisms)"
  show "lm_sasl_authenticate X ok w mechanisms = Inr (False, w)"
    using ns n by (simp add: lm_sasl_authenticate_def scan_mechanisms_eq)
qed

theorem negotiation_selects_mechanism_witness:
  "(\<exists>r w'. lm_sasl_authenticate example_primitives True example_world
              (mechanisms_node [''PLAIN'', ''X-OTHER'', ''DIGEST-MD5'']) = Inr (r, w')
      \<and> auth_type (sasl w') = AUTH_TYPE_DIGEST
      \<and> state (sasl w') = SASL_AUTH_STATE_DIGEST_MD5_STARTED)
   \<and> (\<exists>r w'. lm_sasl_authenticate example_primitives True example_world
              (mechanisms_node [''X-OTHER'', ''PLAIN'']) = Inr (r, w')
      \<and> auth_type (sasl w') = AUTH_TYPE_PLAIN
      \<and> state (sasl w') = SASL_AUTH_STATE_PLAIN_STARTED)
   \<and> lm_sasl_authenticate example_primitives True example_world
        (mechanisms_node [''plain'', ''GSSAPI'']) = Inr (False, example_world)"
  using negotiation_selects_mechanism [of "mechanisms_node [''PLAIN'', ''X-OTHER'', ''DIGEST-MD5'']"
          example_primitives True example_world]
        negotiation_selects_mechanism [of "mechanisms_node [''X-OTHER'', ''PLAIN'']"
          example_primitives True example_world]
        negotiation_selects_mechanism [of "mechanisms_node [''plain'', ''GSSAPI'']"
          example_primitives True example_world]
  by (simp add: mechanisms_node_def lm_message_node_get_attribute_def)

section \<open>The challenge parser: proofs\<close>

lemma takeWhile_stop: "c \<notin> set xs \<Longrightarrow> takeWhile (\<lambda>x. x \<noteq> c) (xs @ c # ys) = xs"
  by (induction xs) auto

lemma dropWhile_stop: "c \<notin> set xs \<Longrightarrow> dropWhile (\<lambda>x. x \<noteq> c) (xs @ c # ys) = c # ys"
  by (induction xs) auto

lemma takeWhile_all: "c \<notin> set xs \<Longrightarrow> takeWhile (\<lambda>x. x \<noteq> c) xs = xs"
  by (induction xs) auto

lemma dropWhile_all: "c \<notin> set xs \<Longrightarrow> dropWhile (\<lambda>x. x \<noteq> c) xs = []"
  by (induction xs) auto

lemma parse_directive_malformed:
  "malformed_ok m \<Longrightarrow> parse_directive (render_malformed m) = None"
proof (cases m)
  case (EmptyKey rest)
  then show ?thesis by (simp add: parse_directive_def)
next
  case (NoEquals k)
  assume "malformed_ok m"
  with NoEquals show ?thesis by (simp add: parse_directive_def dropWhile_all)
next
  case (UnterminatedQuote k v)
  assume "malformed_ok m"
  with UnterminatedQuote show ?thesis
    by (simp add: parse_directive_def takeWhile_stop dropWhile_stop dropWhile_all Let_def)
next
  case (EmptyValue k rest)
  assume "malformed_ok m"
  with EmptyValue show ?thesis
    by (cases rest)
       (auto simp: parse_directive_def takeWhile_stop dropWhile_stop Let_def dquote_def)
qed

lemma render_malformed_nonempty: "malformed_ok m \<Longrightarrow> render_malformed m \<noteq> []"
  by (cases m) auto

lemma parse_directive_quoted:
  assumes "k \<noteq> []" "CHR ''='' \<notin> set k" "v \<noteq> []" "dquote \<notin> set v"
  shows "parse_directive (k @ ''='' @ [dquote] @ v @ [dquote] @ rest) =
           Some (k, strndup_unescaped (v @ [dquote] @ rest) (length v), rest)"
  using assms
  by (simp add: parse_directive_def takeWhile_stop dropWhile_stop Let_def)

lemma parse_directive_unquoted:
  assumes "k \<noteq> []" "CHR ''='' \<notin> set k" "v \<noteq> []" "CHR '','' \<notin> set v" "hd v \<noteq> dquote"
  shows "parse_directive (k @ ''='' @ v @ '','' @ rest) = Some (k, v, '','' @ rest)"
  using assms
  by (cases v) (auto simp: parse_directive_def takeWhile_stop dropWhile_stop Let_def)

lemma parse_loop_step:
  assumes "directive_ok d" "rest \<noteq> []"
  shows "\<exists>val. digest_md5_parse_loop (render_directive d @ '','' @ rest) result =
           digest_md5_parse_loop rest (result(directive_key d \<mapsto> val))"
proof (cases d)
  case (Quoted k v)
  with assms show ?thesis
    using parse_directive_quoted [of k v "'','' @ rest"]
    by (subst digest_md5_parse_loop.simps) (auto simp: skip_comma_def)
next
  case (Unquoted k v)
  with assms show ?thesis
    using parse_directive_unquoted [of k v rest]
    by (subst digest_md5_parse_loop.simps) (auto simp: skip_comma_def)
qed

lemma parse_loop_malformed:
  assumes "\<forall>d \<in> set ds. directive_ok d" "malformed_ok m"
  shows "digest_md5_parse_loop (render_directives ds @ render_malformed m) result = None"
  using assms(1)
proof (induction ds arbitrary: result)
  case Nil
  show ?case
    using parse_directive_malformed [OF assms(2)]
    by (subst digest_md5_parse_loop.simps) simp
next
  case (Cons d ds)
  have ne: "render_directives ds @ render_malformed m \<noteq> []"
    using render_malformed_nonempty [OF assms(2)] by simp
  obtain val where
    "digest_md5_parse_loop (render_directive d @ '','' @ (render_directives ds @ render_malformed m)) result =
       digest_md5_parse_loop (render_directives ds @ render_malformed m) (result(directive_key d \<mapsto> val))"
    using parse_loop_step [of d "render_directives ds @ render_malformed m" result] Cons.prems ne
    by auto
  then show ?case using Cons.IH Cons.prems by simp
qed

text \<open>
  Claim C7. A challenge that holds a malformed directive (an empty key, a key with no
  \<^verbatim>\<open>=\<close>, a quoted value that is not closed, an unquoted value that is empty) after any
  number of well-formed directives makes \<^verbatim>\<open>digest_md5_challenge_to_hash\<close> return NULL:
  the directives parsed before it are not returned.
\<close>

theorem malformed_challenge_rejected:
  assumes "\<forall>d \<in> set ds. directive_ok d" and "malformed_ok m"
  shows "digest_md5_challenge_to_hash (render_directives ds @ render_malformed m) = None"
  unfolding digest_md5_challenge_to_hash_def
  using assms by (rule parse_loop_malformed)

theorem malformed_challenge_rejected_witness:
  "digest_md5_challenge_to_hash
     (render_directives [Quoted ''realm'' ''example.org'', Unquoted ''qop'' ''auth'']
        @ render_malformed (NoEquals ''nonce'')) = None
   \<and> digest_md5_challenge_to_hash
     (render_directives [Unquoted ''qop'' ''auth''] @ render_malformed (EmptyKey ''abc'')) = None
   \<and> digest_md5_challenge_to_hash
     (render_directives [Unquoted ''qop'' ''auth'']
        @ render_malformed (UnterminatedQuote ''nonce'' ''abc,x=y'')) = None
   \<and> digest_md5_challenge_to_hash
     (render_directives [Unquoted ''qop'' ''auth'']
        @ render_malformed (EmptyValue ''nonce'' '',x=y'')) = None
   \<and> render_directives [Quoted ''realm'' ''example.org'', Unquoted ''qop'' ''auth'']
        @ render_malformed (NoEquals ''nonce'')
      = ''realm='' @ [CHR 0x22] @ ''example.org'' @ [CHR 0x22] @ '',qop=auth,nonce''"
  using malformed_challenge_rejected
          [of "[Quoted ''realm'' ''example.org'', Unquoted ''qop'' ''auth'']" "NoEquals ''nonce''"]
        malformed_challenge_rejected [of "[Unquoted ''qop'' ''auth'']" "EmptyKey ''abc''"]
        malformed_challenge_rejected
          [of "[Unquoted ''qop'' ''auth'']" "UnterminatedQuote ''nonce'' ''abc,x=y''"]
        malformed_challenge_rejected
          [of "[Unquoted ''qop'' ''auth'']" "EmptyValue ''nonce'' '',x=y''"]
  by (simp add: dquote_def)

text \<open>
  Claim C8, at the input \<^verbatim>\<open>k="a\"b"\<close>: the scan for the closing quote stops at the quote
  that follows the backslash, the value read is \<^verbatim>\<open>a"\<close>, and the rest \<^verbatim>\<open>b"\<close> is read as a
  key with no \<^verbatim>\<open>=\<close>, so the parser returns NULL. With a further directive after it,
  \<^verbatim>\<open>k="a\"b",x=y\<close>, the parser returns a table that maps \<^verbatim>\<open>k\<close> to \<^verbatim>\<open>a"\<close> and the key
  \<^verbatim>\<open>b",x\<close> to \<^verbatim>\<open>y\<close>.
\<close>

theorem escaped_quote_ends_value:
  "digest_md5_challenge_to_hash
     (''k='' @ [dquote] @ ''a'' @ [backslash, dquote] @ ''b'' @ [dquote]) = None
   \<and> digest_md5_challenge_to_hash
     (''k='' @ [dquote] @ ''a'' @ [backslash, dquote] @ ''b'' @ [dquote] @ '',x=y'')
     = Some [''k'' \<mapsto> ''a'' @ [dquote], ''b'' @ [dquote] @ '',x'' \<mapsto> ''y'']"
  by (simp add: digest_md5_challenge_to_hash_def digest_md5_parse_loop.simps
        parse_directive_def skip_comma_def dquote_def backslash_def)

text \<open>
  What the parser does recover. A challenge of well-formed directives whose quoted values
  hold neither a quote nor a backslash is parsed to the table it stands for; a backslash
  before a byte other than the quote is removed; the parser never stores an empty value;
  and a comma before the next \<^verbatim>\<open>=\<close> belongs to the key.
\<close>

lemma strndup_unescaped_0: "strndup_unescaped s 0 = []"
  by (cases s) auto

lemma strndup_unescaped_plain:
  "backslash \<notin> set v \<Longrightarrow> strndup_unescaped (v @ rest) (length v) = v"
  by (induction v) (auto simp: strndup_unescaped_0)

lemma parse_directive_unquoted_last:
  assumes "k \<noteq> []" "CHR ''='' \<notin> set k" "v \<noteq> []" "CHR '','' \<notin> set v" "hd v \<noteq> dquote"
  shows "parse_directive (k @ ''='' @ v) = Some (k, v, [])"
  using assms
  by (cases v) (auto simp: parse_directive_def takeWhile_stop dropWhile_stop takeWhile_all dropWhile_all Let_def)

lemma parse_directive_ok:
  assumes "directive_ok d" "plain_value d" "rest = [] \<or> hd rest = CHR '',''"
  shows "parse_directive (render_directive d @ rest) = Some (directive_key d, directive_value d, rest)"
proof (cases d)
  case (Quoted k v)
  with assms show ?thesis
    using parse_directive_quoted [of k v rest] strndup_unescaped_plain [of v "[dquote] @ rest"]
    by simp
next
  case (Unquoted k v)
  show ?thesis
  proof (cases rest)
    case Nil
    with Unquoted assms show ?thesis using parse_directive_unquoted_last [of k v] by simp
  next
    case (Cons a rest')
    with Unquoted assms show ?thesis using parse_directive_unquoted [of k v rest'] by simp
  qed
qed

lemma render_challenge_nonempty: "ds \<noteq> [] \<Longrightarrow> \<forall>d \<in> set ds. directive_ok d \<Longrightarrow> render_challenge ds \<noteq> []"
  by (induction ds rule: render_challenge.induct) (auto elim: directive_ok.elims)

lemma parse_loop_roundtrip:
  assumes "ds \<noteq> []" "\<forall>d \<in> set ds. directive_ok d \<and> plain_value d"
  shows "digest_md5_parse_loop (render_challenge ds) t = Some (table_of ds t)"
  using assms
proof (induction ds arbitrary: t rule: render_challenge.induct)
  case 1
  then show ?case by simp
next
  case (2 d)
  then show ?case
    using parse_directive_ok [of d "[]"]
    by (subst digest_md5_parse_loop.simps) (simp add: skip_comma_def)
next
  case (3 d d' ds)
  have ne: "render_challenge (d' # ds) \<noteq> []"
    using render_challenge_nonempty [of "d' # ds"] "3.prems" by simp
  let ?t = "t(directive_key d \<mapsto> directive_value d)"
  have step: "digest_md5_parse_loop (render_challenge (d # d' # ds)) t =
          digest_md5_parse_loop (render_challenge (d' # ds)) ?t"
    using parse_directive_ok [of d "'','' @ render_challenge (d' # ds)"] "3.prems" ne
    by (subst digest_md5_parse_loop.simps) (simp add: skip_comma_def)
  have ih: "digest_md5_parse_loop (render_challenge (d' # ds)) ?t = Some (table_of (d' # ds) ?t)"
    using "3.prems" by (intro "3.IH") simp_all
  show ?case
    by (simp only: step ih table_of.simps)
qed

lemma challenge_roundtrip:
  assumes "ds \<noteq> []" "\<forall>d \<in> set ds. directive_ok d \<and> plain_value d"
  shows "digest_md5_challenge_to_hash (render_challenge ds) = Some (table_of ds Map.empty)"
  unfolding digest_md5_challenge_to_hash_def using assms by (rule parse_loop_roundtrip)

lemma challenge_roundtrip_two:
  assumes "directive_ok (Quoted k1 v1)" "backslash \<notin> set v1" "directive_ok (Unquoted k2 v2)"
  shows "digest_md5_challenge_to_hash (k1 @ ''='' @ [dquote] @ v1 @ [dquote] @ '','' @ k2 @ ''='' @ v2)
           = Some [k1 \<mapsto> v1, k2 \<mapsto> v2]"
  using challenge_roundtrip [of "[Quoted k1 v1, Unquoted k2 v2]"] assms by simp

lemma backslash_unescaped:
  "digest_md5_challenge_to_hash (''k='' @ [dquote] @ ''a'' @ [backslash, backslash] @ ''b'' @ [backslash] @ ''c'' @ [dquote])
     = Some [''k'' \<mapsto> ''a'' @ [backslash] @ ''bc'']"
  by (simp add: parse_defs)

lemma comma_in_key:
  "digest_md5_challenge_to_hash ''a=b,foo,c=d'' = Some [''a'' \<mapsto> ''b'', ''foo,c'' \<mapsto> ''d'']"
  by (simp add: parse_defs)

lemma strndup_unescaped_nonempty:
  assumes "raw \<noteq> []" "rest \<noteq> []"
  shows "strndup_unescaped (raw @ rest) (length raw) \<noteq> []"
proof (cases raw)
  case Nil
  with assms show ?thesis by simp
next
  case (Cons x xs)
  with assms show ?thesis
    by (cases "xs @ rest") auto
qed

lemma parse_directive_value_nonempty:
  assumes "parse_directive c = Some (key, val, c')"
  shows "val \<noteq> []"
proof -
  have q: "\<And>v. dropWhile (\<lambda>x. x \<noteq> dquote) v \<noteq> [] \<Longrightarrow> takeWhile (\<lambda>x. x \<noteq> dquote) v \<noteq> [] \<Longrightarrow>
        strndup_unescaped v (length (takeWhile (\<lambda>x. x \<noteq> dquote) v)) \<noteq> []"
  proof -
    fix v :: string
    assume a: "dropWhile (\<lambda>x. x \<noteq> dquote) v \<noteq> []" "takeWhile (\<lambda>x. x \<noteq> dquote) v \<noteq> []"
    have "v = takeWhile (\<lambda>x. x \<noteq> dquote) v @ dropWhile (\<lambda>x. x \<noteq> dquote) v" by simp
    then show "strndup_unescaped v (length (takeWhile (\<lambda>x. x \<noteq> dquote) v)) \<noteq> []"
      using strndup_unescaped_nonempty [OF a(2) a(1)] by simp
  qed
  show ?thesis
    using assms q
    by (auto simp: parse_directive_def Let_def split: if_splits)
qed

lemma parse_loop_values_nonempty:
  "digest_md5_parse_loop c result = Some h \<Longrightarrow> \<forall>k. result k \<noteq> Some [] \<Longrightarrow> h k \<noteq> Some []"
proof (induction c result rule: digest_md5_parse_loop.induct)
  case (1 c result)
  from "1.prems"(1) obtain key val c' where p: "parse_directive c = Some (key, val, c')"
    by (subst (asm) digest_md5_parse_loop.simps) (auto split: option.splits)
  have v: "val \<noteq> []" using parse_directive_value_nonempty [OF p] .
  have inv: "\<forall>k. (result(key \<mapsto> val)) k \<noteq> Some []" using "1.prems"(2) v by simp
  show ?case
  proof (cases "skip_comma c' = []")
    case True
    then have "h = result(key \<mapsto> val)"
      using "1.prems"(1) p by (subst (asm) digest_md5_parse_loop.simps) simp
    then show ?thesis using inv by simp
  next
    case False
    then have "digest_md5_parse_loop (skip_comma c') (result(key \<mapsto> val)) = Some h"
      using "1.prems"(1) p by (subst (asm) digest_md5_parse_loop.simps) simp
    from "1.IH" [OF p refl refl False this inv] show ?thesis .
  qed
qed

lemma parsed_values_nonempty:
  "digest_md5_challenge_to_hash challenge = Some h \<Longrightarrow> h k \<noteq> Some []"
  unfolding digest_md5_challenge_to_hash_def
  by (erule parse_loop_values_nonempty) simp

section \<open>Response derivation and verification: proofs\<close>

lemma md5_hex_hash_hex: "\<forall>s. length (md5 X s) = 16 \<Longrightarrow> md5_hex_hash X s = hex (md5 X s)"
  by (simp add: md5_hex_hash_def hex_def)

text \<open>
  Claim C6. Let the digest primitive return 16 bytes, let the session hold the username
  \<open>U\<close> and the password \<open>P\<close>, let the challenge carry the nonce \<open>N\<close>, and let \<open>R\<close> be the
  realm of the challenge, or the server name of the session when the challenge has no
  realm. With the client nonce \<open>CN\<close>, \<^verbatim>\<open>md5_prepare_response\<close> returns the directive string
  whose response field is \<open>hex (MD5 (HA1 : N :00000001: CN :auth: HA2))\<close> and stores as
  expected rspauth the same derivation with \<open>:xmpp/R\<close> in the place of
  \<open>AUTHENTICATE:xmpp/R\<close>; both values are functions of \<open>U\<close>, \<open>R\<close>, \<open>P\<close>, \<open>N\<close> and \<open>CN\<close>
  alone, and no handler call is made.
\<close>

theorem digest_response_derivation:
  assumes md5len: "\<forall>s. length (md5 X s) = 16"
      and user: "username (sasl w) = Some U"
      and pass: "password (sasl w) = Some P"
      and nonce: "challenge ''nonce'' = Some N"
      and realm: "challenge ''realm'' = Some R
                  \<or> (challenge ''realm'' = None \<and> server (sasl w) = Some R)"
  shows "md5_prepare_response X CN w challenge =
           (Some (spec_directive_string U R N CN (spec_response X U R P N CN)),
            w\<lparr>sasl := (sasl w)\<lparr>digest_md5_rspauth :=
                 Some (spec_expected_rspauth X U R P N CN)\<rparr>\<rparr>)"
proof -
  have r: "(case challenge ''realm'' of None \<Rightarrow> printf_s (server (sasl w)) | Some r \<Rightarrow> r) = R"
    using realm by (auto simp: printf_s_def)
  have d: "\<And>s. take 16 (md5 X s) = md5 X s"
    using md5len by simp
  show ?thesis
    using user pass nonce
    by (simp add: md5_prepare_response_def r d md5_hex_hash_hex [OF md5len] Let_def
          spec_directive_string_def spec_response_def spec_expected_rspauth_def
          spec_HA1_def spec_HA2_def)
qed

lemma length_pad16: "length (pad16 s) = 16"
proof -
  have "length ''0123456789abcdef'' = 16" by simp
  then show ?thesis unfolding pad16_def by (simp del: list.size)
qed

lemma example_md5_length: "\<forall>s. length (md5 example_primitives s) = 16"
  by (simp add: example_primitives_def length_pad16)

theorem digest_response_derivation_witness:
  "md5_prepare_response example_primitives ''OA6MHXh6VqTrRk''
       (example_digest_world SASL_AUTH_STATE_DIGEST_MD5_STARTED None)
       [''nonce'' \<mapsto> ''OA6MG9tEQGm2hh'', ''realm'' \<mapsto> ''elwood.innosoft.com'']
     = (Some (spec_directive_string ''chris'' ''elwood.innosoft.com'' ''OA6MG9tEQGm2hh''
                ''OA6MHXh6VqTrRk''
                (spec_response example_primitives ''chris'' ''elwood.innosoft.com'' ''secret''
                   ''OA6MG9tEQGm2hh'' ''OA6MHXh6VqTrRk'')),
        example_digest_world SASL_AUTH_STATE_DIGEST_MD5_STARTED
          (Some (spec_expected_rspauth example_primitives ''chris'' ''elwood.innosoft.com''
                   ''secret'' ''OA6MG9tEQGm2hh'' ''OA6MHXh6VqTrRk'')))
   \<and> md5_prepare_response example_primitives ''OA6MHXh6VqTrRk''
       (example_digest_world SASL_AUTH_STATE_DIGEST_MD5_STARTED None)
       [''nonce'' \<mapsto> ''OA6MG9tEQGm2hh'']
     = (Some (spec_directive_string ''chris'' ''example.org'' ''OA6MG9tEQGm2hh''
                ''OA6MHXh6VqTrRk''
                (spec_response example_primitives ''chris'' ''example.org'' ''secret''
                   ''OA6MG9tEQGm2hh'' ''OA6MHXh6VqTrRk'')),
        example_digest_world SASL_AUTH_STATE_DIGEST_MD5_STARTED
          (Some (spec_expected_rspauth example_primitives ''chris'' ''example.org''
                   ''secret'' ''OA6MG9tEQGm2hh'' ''OA6MHXh6VqTrRk'')))
   \<and> spec_response example_primitives ''chris'' ''elwood.innosoft.com'' ''secret''
        ''OA6MG9tEQGm2hh'' ''OA6MHXh6VqTrRk'' = ''39343435653435343662353237323534''
   \<and> spec_expected_rspauth example_primitives ''chris'' ''elwood.innosoft.com'' ''secret''
        ''OA6MG9tEQGm2hh'' ''OA6MHXh6VqTrRk'' = ''63363536663230373662353237323534''"
proof -
  let ?w = "example_digest_world SASL_AUTH_STATE_DIGEST_MD5_STARTED None"
  have u: "username (sasl ?w) = Some ''chris''" and p: "password (sasl ?w) = Some ''secret''"
    and s: "server (sasl ?w) = Some ''example.org''"
    by (simp_all add: example_digest_world_def example_world_def lm_sasl_new_def)
  have upd: "\<And>r. ?w\<lparr>sasl := (sasl ?w)\<lparr>digest_md5_rspauth := Some r\<rparr>\<rparr>
                = example_digest_world SASL_AUTH_STATE_DIGEST_MD5_STARTED (Some r)"
    by (simp add: example_digest_world_def)
  have v: "spec_response example_primitives ''chris'' ''elwood.innosoft.com'' ''secret''
        ''OA6MG9tEQGm2hh'' ''OA6MHXh6VqTrRk'' = ''39343435653435343662353237323534''"
    "spec_expected_rspauth example_primitives ''chris'' ''elwood.innosoft.com'' ''secret''
        ''OA6MG9tEQGm2hh'' ''OA6MHXh6VqTrRk'' = ''63363536663230373662353237323534''"
    by (simp_all add: spec_response_def spec_expected_rspauth_def spec_HA1_def spec_HA2_def
          hex_def hex_byte_def hex_digit_def example_primitives_def pad16_def)
  show ?thesis
    using digest_response_derivation [OF example_md5_length u p, of
            "[''nonce'' \<mapsto> ''OA6MG9tEQGm2hh'', ''realm'' \<mapsto> ''elwood.innosoft.com'']"
            "''OA6MG9tEQGm2hh''" "''elwood.innosoft.com''" "''OA6MHXh6VqTrRk''"]
          digest_response_derivation [OF example_md5_length u p, of
            "[''nonce'' \<mapsto> ''OA6MG9tEQGm2hh'']"
            "''OA6MG9tEQGm2hh''" "''example.org''" "''OA6MHXh6VqTrRk''"]
          s v
    by (simp add: upd)
qed

lemma missing_nonce_rejected:
  assumes "username (sasl w) = Some U" "password (sasl w) = Some P" "challenge ''nonce'' = None"
  shows "md5_prepare_response X cnonce w challenge =
           (None, call_handler w False (Some ''server error''))"
  using assms by (simp add: md5_prepare_response_def)

text \<open>
  Claim C3. Let the session hold a username and a password and have a handler, and let
  the first challenge be a text that \<^verbatim>\<open>digest_md5_challenge_to_hash\<close> parses to a table
  that has no \<^verbatim>\<open>nonce\<close> or maps \<^verbatim>\<open>nonce\<close> to the empty string. Then
  \<^verbatim>\<open>md5_prepare_response\<close> returns no response string and calls the handler once with
  \<^verbatim>\<open>FALSE\<close> and \<^verbatim>\<open>"server error"\<close>, and \<^verbatim>\<open>digest_md5_send_initial_response\<close> returns FALSE
  with nothing sent and the state kept. The table is the only one the function receives:
  it is static and called on the parser's result alone.
\<close>

theorem parsed_challenge_without_nonce_rejected:
  assumes parsed: "digest_md5_challenge_to_hash challenge = Some h"
      and nonce: "h ''nonce'' = None \<or> h ''nonce'' = Some []"
      and user: "username (sasl w) = Some U"
      and pass: "password (sasl w) = Some P"
      and hnd: "handler (sasl w)"
  shows "md5_prepare_response X cnonce w h =
           (None, w\<lparr>calls := calls w @ [(False, Some ''server error'')]\<rparr>)
       \<and> digest_md5_send_initial_response X cnonce ok w h =
           (False, w\<lparr>calls := calls w @ [(False, Some ''server error'')]\<rparr>)"
proof -
  have "h ''nonce'' \<noteq> Some []"
    using parsed by (rule parsed_values_nonempty)
  with nonce have none: "h ''nonce'' = None"
    by simp
  have r: "md5_prepare_response X cnonce w h =
             (None, w\<lparr>calls := calls w @ [(False, Some ''server error'')]\<rparr>)"
    using missing_nonce_rejected [of w U P h X cnonce] user pass none hnd
    by (simp add: call_handler_def)
  then show ?thesis
    by (simp add: digest_md5_send_initial_response_def)
qed

theorem parsed_challenge_without_nonce_rejected_witness:
  "digest_md5_challenge_to_hash
       (''realm='' @ [dquote] @ ''elwood.innosoft.com'' @ [dquote] @ '',qop=auth'')
     = Some [''realm'' \<mapsto> ''elwood.innosoft.com'', ''qop'' \<mapsto> ''auth'']
   \<and> md5_prepare_response example_primitives ''OA6MHXh6VqTrRk''
       (example_digest_world SASL_AUTH_STATE_DIGEST_MD5_STARTED None)
       [''realm'' \<mapsto> ''elwood.innosoft.com'', ''qop'' \<mapsto> ''auth'']
     = (None, (example_digest_world SASL_AUTH_STATE_DIGEST_MD5_STARTED None)
                \<lparr>calls := [(False, Some ''server error'')]\<rparr>)
   \<and> digest_md5_send_initial_response example_primitives ''OA6MHXh6VqTrRk'' True
       (example_digest_world SASL_AUTH_STATE_DIGEST_MD5_STARTED None)
       [''realm'' \<mapsto> ''elwood.innosoft.com'', ''qop'' \<mapsto> ''auth'']
     = (False, (example_digest_world SASL_AUTH_STATE_DIGEST_MD5_STARTED None)
                 \<lparr>calls := [(False, Some ''server error'')]\<rparr>)"
proof -
  let ?w = "example_digest_world SASL_AUTH_STATE_DIGEST_MD5_STARTED None"
  let ?h = "[''realm'' \<mapsto> ''elwood.innosoft.com'', ''qop'' \<mapsto> ''auth'']"
  have p: "digest_md5_challenge_to_hash
             (''realm='' @ [dquote] @ ''elwood.innosoft.com'' @ [dquote] @ '',qop=auth'')
           = Some ?h"
    by (simp add: parse_defs)
  have n: "?h ''nonce'' = None \<or> ?h ''nonce'' = Some []"
    by simp
  have u: "username (sasl ?w) = Some ''chris''" and pw: "password (sasl ?w) = Some ''secret''"
    and hd: "handler (sasl ?w)" and c: "calls ?w = []"
    by (simp_all add: example_digest_world_def example_world_def lm_sasl_new_def)
  have t: "md5_prepare_response example_primitives ''OA6MHXh6VqTrRk'' ?w ?h
             = (None, ?w\<lparr>calls := calls ?w @ [(False, Some ''server error'')]\<rparr>)
           \<and> digest_md5_send_initial_response example_primitives ''OA6MHXh6VqTrRk'' True ?w ?h
             = (False, ?w\<lparr>calls := calls ?w @ [(False, Some ''server error'')]\<rparr>)"
    using parsed_challenge_without_nonce_rejected
            [OF p n u pw hd, of example_primitives "''OA6MHXh6VqTrRk''" True] .
  have t': "md5_prepare_response example_primitives ''OA6MHXh6VqTrRk'' ?w ?h
             = (None, ?w\<lparr>calls := [(False, Some ''server error'')]\<rparr>)
           \<and> digest_md5_send_initial_response example_primitives ''OA6MHXh6VqTrRk'' True ?w ?h
             = (False, ?w\<lparr>calls := [(False, Some ''server error'')]\<rparr>)"
    using t by (simp only: c append_Nil)
  show ?thesis
    by (rule conjI [OF p t'])
qed

text \<open>
  The rejection of an empty nonce rests on the parser, not on the test in
  \<^verbatim>\<open>md5_prepare_response\<close>: \<^verbatim>\<open>nonce == NULL || nonce == '\0'\<close> compares the pointer with
  zero twice. On a table built by hand that maps \<^verbatim>\<open>nonce\<close> to the empty string, which no
  challenge text yields (\<open>parsed_values_nonempty\<close>), a response string is produced and no
  handler call is made.
\<close>

lemma hand_built_empty_nonce_passes_test:
  "fst (md5_prepare_response X cnonce
          (example_digest_world SASL_AUTH_STATE_DIGEST_MD5_STARTED None)
          [''nonce'' \<mapsto> '''']) \<noteq> None
   \<and> calls (snd (md5_prepare_response X cnonce
          (example_digest_world SASL_AUTH_STATE_DIGEST_MD5_STARTED None)
          [''nonce'' \<mapsto> ''''])) = []"
  by (simp add: md5_prepare_response_def example_digest_world_def example_world_def
        lm_sasl_new_def Let_def)

text \<open>
  Claim C1, at a session in state \<^verbatim>\<open>DIGEST_MD5_SENT_AUTH_RESPONSE\<close> that expects the
  rspauth \<^verbatim>\<open>00ff\<close>. For a second challenge without an rspauth directive, and for one
  whose rspauth \<^verbatim>\<open>00FF\<close> differs from the stored value in case only,
  \<^verbatim>\<open>digest_md5_check_server_response\<close> returns FALSE, sends nothing and leaves the state
  as it is, and calls the handler once with the reason \<^verbatim>\<open>"server error"\<close> and with
  \<^verbatim>\<open>TRUE\<close> as the success flag. The same through \<^verbatim>\<open>challenge_cb\<close>, for the challenge text
  \<^verbatim>\<open>rspauth=00FF\<close>.
\<close>

theorem rspauth_rejection_reports_success:
  "digest_md5_check_server_response True
       (example_digest_world SASL_AUTH_STATE_DIGEST_MD5_SENT_AUTH_RESPONSE (Some ''00ff''))
       Map.empty
     = Inr (False,
            (example_digest_world SASL_AUTH_STATE_DIGEST_MD5_SENT_AUTH_RESPONSE (Some ''00ff''))
              \<lparr>calls := [(True, Some ''server error'')]\<rparr>)
   \<and> digest_md5_check_server_response True
       (example_digest_world SASL_AUTH_STATE_DIGEST_MD5_SENT_AUTH_RESPONSE (Some ''00ff''))
       [''rspauth'' \<mapsto> ''00FF'']
     = Inr (False,
            (example_digest_world SASL_AUTH_STATE_DIGEST_MD5_SENT_AUTH_RESPONSE (Some ''00ff''))
              \<lparr>calls := [(True, Some ''server error'')]\<rparr>)
   \<and> challenge_cb example_primitives ''cn'' True
       (example_digest_world SASL_AUTH_STATE_DIGEST_MD5_SENT_AUTH_RESPONSE (Some ''00ff''))
       (sasl_node (Some ''b64:rspauth=00FF''))
     = Inr (LM_HANDLER_RESULT_REMOVE_MESSAGE,
            (example_digest_world SASL_AUTH_STATE_DIGEST_MD5_SENT_AUTH_RESPONSE (Some ''00ff''))
              \<lparr>calls := [(True, Some ''server error'')]\<rparr>)"
  by (simp add: digest_md5_check_server_response_def challenge_cb_def
        digest_md5_handle_challenge_def example_defs step_defs parse_defs)

section \<open>The message handlers: proofs\<close>

text \<open>
  Claim C10. For a session whose mechanism is DIGEST-MD5 and a challenge node in the SASL
  namespace: when the node has no text, \<^verbatim>\<open>challenge_cb\<close> removes the message and the
  session, the sent messages and the handler calls are what they were; when the node has
  text that the parser rejects and a handler is registered, the handler is called once
  with \<^verbatim>\<open>FALSE\<close> and \<^verbatim>\<open>"server error"\<close>, and nothing else changes.
\<close>

theorem absent_challenge_text_dropped:
  assumes "auth_type (sasl w) = AUTH_TYPE_DIGEST"
      and "lm_message_node_get_attribute node ''xmlns'' = Some XMPP_NS_SASL_AUTH"
  shows "(lm_message_node_get_value node = None \<longrightarrow>
            challenge_cb X cnonce ok w node = Inr (LM_HANDLER_RESULT_REMOVE_MESSAGE, w))
       \<and> (\<forall>encoded. lm_message_node_get_value node = Some encoded
              \<and> digest_md5_challenge_to_hash (c_string (base64_decode X encoded)) = None
              \<and> handler (sasl w) \<longrightarrow>
            challenge_cb X cnonce ok w node =
              Inr (LM_HANDLER_RESULT_REMOVE_MESSAGE,
                   w\<lparr>calls := calls w @ [(False, Some ''server error'')]\<rparr>))"
  using assms
  by (simp add: challenge_cb_def digest_md5_handle_challenge_def call_handler_def
        AUTH_TYPE_PLAIN_def AUTH_TYPE_DIGEST_def)

theorem absent_challenge_text_dropped_witness:
  "challenge_cb example_primitives ''cn'' True
       (example_digest_world SASL_AUTH_STATE_DIGEST_MD5_STARTED None) (sasl_node None)
     = Inr (LM_HANDLER_RESULT_REMOVE_MESSAGE,
            example_digest_world SASL_AUTH_STATE_DIGEST_MD5_STARTED None)
   \<and> challenge_cb example_primitives ''cn'' True
       (example_digest_world SASL_AUTH_STATE_DIGEST_MD5_STARTED None)
       (sasl_node (Some ''b64:nonce''))
     = Inr (LM_HANDLER_RESULT_REMOVE_MESSAGE,
            (example_digest_world SASL_AUTH_STATE_DIGEST_MD5_STARTED None)
              \<lparr>calls := [(False, Some ''server error'')]\<rparr>)"
proof -
  let ?w = "example_digest_world SASL_AUTH_STATE_DIGEST_MD5_STARTED None"
  have a: "auth_type (sasl ?w) = AUTH_TYPE_DIGEST"
    by (simp add: example_digest_world_def)
  have n1: "lm_message_node_get_attribute (sasl_node None) ''xmlns'' = Some XMPP_NS_SASL_AUTH"
    by (simp add: sasl_node_def lm_message_node_get_attribute_def)
  have n2: "lm_message_node_get_attribute (sasl_node (Some ''b64:nonce'')) ''xmlns''
              = Some XMPP_NS_SASL_AUTH"
    by (simp add: sasl_node_def lm_message_node_get_attribute_def)
  have p: "digest_md5_challenge_to_hash (c_string (base64_decode example_primitives ''b64:nonce''))
             = None"
    by (simp add: example_primitives_def c_string_def digest_md5_challenge_to_hash_def
          digest_md5_parse_loop.simps parse_directive_def)
  have h: "handler (sasl ?w)" "calls ?w = []"
    by (simp_all add: example_digest_world_def example_world_def lm_sasl_new_def)
  show ?thesis
    using absent_challenge_text_dropped [OF a n1, of example_primitives "''cn''" True]
          absent_challenge_text_dropped [OF a n2, of example_primitives "''cn''" True] p h
    by (simp add: sasl_node_def lm_message_node_get_value_def)
qed

text \<open>
  Claim C4, as amended. Let a handler be registered and let a challenge in the SASL
  namespace arrive in state \<^verbatim>\<open>NO_MECH\<close> or \<^verbatim>\<open>DIGEST_MD5_SENT_FINAL_RESPONSE\<close>. If the
  mechanism is PLAIN, or the mechanism is DIGEST-MD5 and the challenge has text (whether
  the text parses or not), \<^verbatim>\<open>challenge_cb\<close> returns, the handler is called once with
  \<^verbatim>\<open>FALSE\<close> and \<^verbatim>\<open>"server error"\<close>, nothing is sent and the state is kept. If the mechanism
  is DIGEST-MD5 and the challenge has no text, the message is dropped with no handler
  call. A session with no mechanism selected is not covered.
\<close>

theorem late_challenge_rejected:
  assumes "lm_message_node_get_attribute node ''xmlns'' = Some XMPP_NS_SASL_AUTH"
      and "handler (sasl w)"
      and "state (sasl w) = SASL_AUTH_STATE_NO_MECH
           \<or> state (sasl w) = SASL_AUTH_STATE_DIGEST_MD5_SENT_FINAL_RESPONSE"
  shows "(auth_type (sasl w) = AUTH_TYPE_PLAIN \<longrightarrow>
            challenge_cb X cnonce ok w node =
              Inr (LM_HANDLER_RESULT_REMOVE_MESSAGE,
                   w\<lparr>calls := calls w @ [(False, Some ''server error'')]\<rparr>))
       \<and> (auth_type (sasl w) = AUTH_TYPE_DIGEST \<and> lm_message_node_get_value node \<noteq> None \<longrightarrow>
            challenge_cb X cnonce ok w node =
              Inr (LM_HANDLER_RESULT_REMOVE_MESSAGE,
                   w\<lparr>calls := calls w @ [(False, Some ''server error'')]\<rparr>))
       \<and> (auth_type (sasl w) = AUTH_TYPE_DIGEST \<and> lm_message_node_get_value node = None \<longrightarrow>
            challenge_cb X cnonce ok w node = Inr (LM_HANDLER_RESULT_REMOVE_MESSAGE, w))"
  using assms
  by (auto simp: challenge_cb_def digest_md5_handle_challenge_def step_defs
        split: option.splits)

theorem late_challenge_rejected_witness:
  "challenge_cb example_primitives ''cn'' True
       (example_digest_world SASL_AUTH_STATE_DIGEST_MD5_SENT_FINAL_RESPONSE (Some ''00ff''))
       (sasl_node (Some ''b64:nonce=abc''))
     = Inr (LM_HANDLER_RESULT_REMOVE_MESSAGE,
            (example_digest_world SASL_AUTH_STATE_DIGEST_MD5_SENT_FINAL_RESPONSE (Some ''00ff''))
              \<lparr>calls := [(False, Some ''server error'')]\<rparr>)
   \<and> challenge_cb example_primitives ''cn'' True
       (example_digest_world SASL_AUTH_STATE_DIGEST_MD5_SENT_FINAL_RESPONSE (Some ''00ff''))
       (sasl_node None)
     = Inr (LM_HANDLER_RESULT_REMOVE_MESSAGE,
            example_digest_world SASL_AUTH_STATE_DIGEST_MD5_SENT_FINAL_RESPONSE (Some ''00ff''))
   \<and> challenge_cb example_primitives ''cn'' True
       (example_plain_world SASL_AUTH_STATE_NO_MECH) (sasl_node (Some ''b64:nonce=abc''))
     = Inr (LM_HANDLER_RESULT_REMOVE_MESSAGE,
            (example_plain_world SASL_AUTH_STATE_NO_MECH)
              \<lparr>calls := [(False, Some ''server error'')]\<rparr>)"
  using late_challenge_rejected
          [of "sasl_node (Some ''b64:nonce=abc'')"
              "example_digest_world SASL_AUTH_STATE_DIGEST_MD5_SENT_FINAL_RESPONSE (Some ''00ff'')"
              example_primitives "''cn''" True]
        late_challenge_rejected
          [of "sasl_node None"
              "example_digest_world SASL_AUTH_STATE_DIGEST_MD5_SENT_FINAL_RESPONSE (Some ''00ff'')"
              example_primitives "''cn''" True]
        late_challenge_rejected
          [of "sasl_node (Some ''b64:nonce=abc'')" "example_plain_world SASL_AUTH_STATE_NO_MECH"
              example_primitives "''cn''" True]
  by (simp add: example_defs AUTH_TYPE_PLAIN_def AUTH_TYPE_DIGEST_def)

text \<open>
  Claim C4 as stated fails at two inputs. A session in state
  \<^verbatim>\<open>DIGEST_MD5_SENT_FINAL_RESPONSE\<close> that receives a challenge without text drops it: the
  world after \<^verbatim>\<open>challenge_cb\<close> is the world before, with no handler call. A new session
  (state \<^verbatim>\<open>NO_MECH\<close>, no mechanism selected) that receives a challenge reaches
  \<^verbatim>\<open>g_assert_not_reached\<close>.
\<close>

theorem late_challenge_counterexample:
  "challenge_cb example_primitives ''cn'' True
       (example_digest_world SASL_AUTH_STATE_DIGEST_MD5_SENT_FINAL_RESPONSE (Some ''00ff''))
       (sasl_node None)
     = Inr (LM_HANDLER_RESULT_REMOVE_MESSAGE,
            example_digest_world SASL_AUTH_STATE_DIGEST_MD5_SENT_FINAL_RESPONSE (Some ''00ff''))
   \<and> calls (example_digest_world SASL_AUTH_STATE_DIGEST_MD5_SENT_FINAL_RESPONSE (Some ''00ff'')) = []
   \<and> state (sasl example_world) = SASL_AUTH_STATE_NO_MECH
   \<and> challenge_cb example_primitives ''cn'' True example_world (sasl_node (Some ''b64:nonce=abc''))
     = Inl AssertNotReached"
  by (simp add: challenge_cb_def digest_md5_handle_challenge_def example_defs step_defs)

lemma failure_cb_calls:
  assumes "lm_message_node_get_attribute node ''xmlns'' = Some XMPP_NS_SASL_AUTH"
      and "handler (sasl w)"
  shows "\<exists>reason. failure_cb w node =
           (LM_HANDLER_RESULT_REMOVE_MESSAGE, w\<lparr>calls := calls w @ [(False, Some reason)]\<rparr>)"
  using assms by (auto simp: failure_cb_def call_handler_def Let_def)

lemma failures_all_reported:
  assumes "lm_message_node_get_attribute node ''xmlns'' = Some XMPP_NS_SASL_AUTH"
      and "handler (sasl w)"
  shows "\<exists>w'. deliver_all X w (replicate n (Failure node, cnonce, ok)) = Inr w'
           \<and> length (calls w') = length (calls w) + n \<and> sasl w' = sasl w"
  using assms(2)
proof (induction n arbitrary: w)
  case 0
  show ?case by simp
next
  case (Suc n)
  obtain reason where f: "failure_cb w node =
      (LM_HANDLER_RESULT_REMOVE_MESSAGE, w\<lparr>calls := calls w @ [(False, Some reason)]\<rparr>)"
    using failure_cb_calls [OF assms(1) Suc.prems] by blast
  let ?w1 = "w\<lparr>calls := calls w @ [(False, Some reason)]\<rparr>"
  have "handler (sasl ?w1)" using Suc.prems by simp
  from Suc.IH [OF this] obtain w' where
    "deliver_all X ?w1 (replicate n (Failure node, cnonce, ok)) = Inr w'"
    "length (calls w') = length (calls ?w1) + n" "sasl w' = sasl ?w1"
    by blast
  then show ?case using f by simp
qed

text \<open>
  Claim C2, as amended. Let a handler be registered and let the message be in the SASL
  namespace. A success message that arrives in the state the mechanism expects before
  success (\<^verbatim>\<open>PLAIN_STARTED\<close> for PLAIN, \<^verbatim>\<open>DIGEST_MD5_SENT_FINAL_RESPONSE\<close> for DIGEST-MD5)
  makes exactly one handler call, with \<^verbatim>\<open>TRUE\<close> and no reason. A failure message makes
  exactly one handler call, with \<^verbatim>\<open>FALSE\<close> and a reason. Nothing limits the calls over a
  sequence of messages: \<open>n\<close> failure messages in a row make \<open>n\<close> handler calls.
\<close>

theorem callbacks_per_message:
  assumes ns: "lm_message_node_get_attribute node ''xmlns'' = Some XMPP_NS_SASL_AUTH"
      and h: "handler (sasl w)"
  shows "(auth_type (sasl w) = AUTH_TYPE_PLAIN \<and> state (sasl w) = SASL_AUTH_STATE_PLAIN_STARTED
          \<or> auth_type (sasl w) = AUTH_TYPE_DIGEST
            \<and> state (sasl w) = SASL_AUTH_STATE_DIGEST_MD5_SENT_FINAL_RESPONSE \<longrightarrow>
            success_cb w node =
              Inr (LM_HANDLER_RESULT_REMOVE_MESSAGE, w\<lparr>calls := calls w @ [(True, None)]\<rparr>))
       \<and> (\<exists>reason. failure_cb w node =
              (LM_HANDLER_RESULT_REMOVE_MESSAGE,
               w\<lparr>calls := calls w @ [(False, Some reason)]\<rparr>))
       \<and> (\<exists>w'. deliver_all X w (replicate n (Failure node, cnonce, ok)) = Inr w'
              \<and> length (calls w') = length (calls w) + n)"
proof (intro conjI impI)
  assume "auth_type (sasl w) = AUTH_TYPE_PLAIN \<and> state (sasl w) = SASL_AUTH_STATE_PLAIN_STARTED
          \<or> auth_type (sasl w) = AUTH_TYPE_DIGEST
            \<and> state (sasl w) = SASL_AUTH_STATE_DIGEST_MD5_SENT_FINAL_RESPONSE"
  then show "success_cb w node =
      Inr (LM_HANDLER_RESULT_REMOVE_MESSAGE, w\<lparr>calls := calls w @ [(True, None)]\<rparr>)"
    using ns h by (auto simp: success_cb_def step_defs)
next
  show "\<exists>reason. failure_cb w node =
          (LM_HANDLER_RESULT_REMOVE_MESSAGE, w\<lparr>calls := calls w @ [(False, Some reason)]\<rparr>)"
    by (rule failure_cb_calls [OF ns h])
next
  show "\<exists>w'. deliver_all X w (replicate n (Failure node, cnonce, ok)) = Inr w'
          \<and> length (calls w') = length (calls w) + n"
    using failures_all_reported [OF ns h, of X n cnonce ok] by blast
qed

theorem callbacks_per_message_witness:
  "success_cb (example_digest_world SASL_AUTH_STATE_DIGEST_MD5_SENT_FINAL_RESPONSE (Some ''00ff''))
       (sasl_node None)
     = Inr (LM_HANDLER_RESULT_REMOVE_MESSAGE,
            (example_digest_world SASL_AUTH_STATE_DIGEST_MD5_SENT_FINAL_RESPONSE (Some ''00ff''))
              \<lparr>calls := [(True, None)]\<rparr>)
   \<and> (\<exists>reason. failure_cb
         (example_digest_world SASL_AUTH_STATE_DIGEST_MD5_SENT_FINAL_RESPONSE (Some ''00ff''))
         (sasl_node None)
       = (LM_HANDLER_RESULT_REMOVE_MESSAGE,
          (example_digest_world SASL_AUTH_STATE_DIGEST_MD5_SENT_FINAL_RESPONSE (Some ''00ff''))
            \<lparr>calls := [(False, Some reason)]\<rparr>))
   \<and> (\<exists>w'. deliver_all example_primitives
              (example_digest_world SASL_AUTH_STATE_DIGEST_MD5_SENT_FINAL_RESPONSE (Some ''00ff''))
              (replicate 3 (Failure (sasl_node None), ''cn'', True)) = Inr w'
          \<and> length (calls w') = 3)"
  using callbacks_per_message
          [of "sasl_node None"
              "example_digest_world SASL_AUTH_STATE_DIGEST_MD5_SENT_FINAL_RESPONSE (Some ''00ff'')"
              example_primitives 3 "''cn''" True]
  by (simp add: example_digest_world_def example_world_def lm_sasl_new_def sasl_node_def
        lm_message_node_get_attribute_def)

text \<open>
  Claim C2 as stated fails at two inputs. Two failure messages delivered to a new session
  make two handler calls. A success message that arrives right after DIGEST-MD5 was
  started (state \<^verbatim>\<open>DIGEST_MD5_STARTED\<close>) makes two handler calls: first \<^verbatim>\<open>FALSE\<close> with
  \<^verbatim>\<open>"server error"\<close>, then \<^verbatim>\<open>TRUE\<close> with no reason.
\<close>

theorem callback_once_counterexample:
  "deliver_all example_primitives example_world
       [(Failure (sasl_node None), ''cn'', True), (Failure (sasl_node None), ''cn'', True)]
     = Inr (example_world
              \<lparr>calls := [(False, Some ''unknown reason''), (False, Some ''unknown reason'')]\<rparr>)
   \<and> deliver_all example_primitives example_world
       [(Features (Some (mechanisms_node [''DIGEST-MD5''])), ''cn'', True),
        (Success (sasl_node None), ''cn'', True)]
     = Inr ((example_digest_world SASL_AUTH_STATE_DIGEST_MD5_STARTED None)
              \<lparr>sent := [\<lparr>msg_type = LM_MESSAGE_TYPE_AUTH,
                         msg_attributes = [(''xmlns'', Some XMPP_NS_SASL_AUTH),
                                           (''mechanism'', Some ''DIGEST-MD5'')],
                         msg_value = None\<rparr>],
               calls := [(False, Some ''server error''), (True, None)]\<rparr>)
   \<and> calls example_world = []"
  by (simp add: failure_cb_def success_cb_def features_cb_def lm_sasl_authenticate_def
        lm_sasl_start_def example_defs step_defs)

text \<open>
  Claim C9, at a failed send of the first message. \<^verbatim>\<open>lm_sasl_start\<close> on a session with
  DIGEST-MD5 selected and state \<^verbatim>\<open>NO_MECH\<close>, with a transport that reports failure,
  returns FALSE and leaves the state \<^verbatim>\<open>DIGEST_MD5_STARTED\<close>; the same through
  \<^verbatim>\<open>lm_sasl_authenticate\<close> from a new session offered DIGEST-MD5.
\<close>

theorem failed_auth_send_advances_state:
  "lm_sasl_start example_primitives False (example_digest_world SASL_AUTH_STATE_NO_MECH None)
     = (False,
        (example_digest_world SASL_AUTH_STATE_DIGEST_MD5_STARTED None)
          \<lparr>sent := [\<lparr>msg_type = LM_MESSAGE_TYPE_AUTH,
                     msg_attributes = [(''xmlns'', Some XMPP_NS_SASL_AUTH),
                                       (''mechanism'', Some ''DIGEST-MD5'')],
                     msg_value = None\<rparr>]\<rparr>)
   \<and> lm_sasl_authenticate example_primitives False example_world
        (mechanisms_node [''DIGEST-MD5''])
     = Inr (False,
        (example_digest_world SASL_AUTH_STATE_DIGEST_MD5_STARTED None)
          \<lparr>sent := [\<lparr>msg_type = LM_MESSAGE_TYPE_AUTH,
                     msg_attributes = [(''xmlns'', Some XMPP_NS_SASL_AUTH),
                                       (''mechanism'', Some ''DIGEST-MD5'')],
                     msg_value = None\<rparr>]\<rparr>)
   \<and> state (sasl example_world) = SASL_AUTH_STATE_NO_MECH"
  by (simp add: lm_sasl_start_def lm_sasl_authenticate_def example_defs step_defs)

text \<open>
  The two DIGEST-MD5 responses, in contrast, keep the state when the send fails.
\<close>

lemma send_initial_response_failed_send_keeps_state:
  "state (sasl (snd (digest_md5_send_initial_response X cnonce False w challenge))) = state (sasl w)"
  by (simp add: digest_md5_send_initial_response_def md5_prepare_response_def step_defs Let_def
        split: option.splits prod.splits)

lemma check_server_response_failed_send_keeps_state:
  "digest_md5_check_server_response False w challenge = Inr (r, w') \<Longrightarrow>
     state (sasl w') = state (sasl w)"
  by (auto simp: digest_md5_check_server_response_def step_defs Let_def
        split: option.splits if_splits)

section \<open>Runs from a new session\<close>

text \<open>
  The model run on whole exchanges, with the stand-in primitives. DIGEST-MD5 offered,
  first challenge with nonce and realm, second challenge with the expected rspauth,
  success: three messages are sent and the handler is called once, with \<^verbatim>\<open>TRUE\<close>. The
  same exchange with another rspauth in the second challenge: two messages are sent, the
  state stays \<^verbatim>\<open>DIGEST_MD5_SENT_AUTH_RESPONSE\<close>, and the one handler call carries
  \<^verbatim>\<open>"server error"\<close> with the success flag \<^verbatim>\<open>TRUE\<close>. PLAIN offered to a session without a
  password: nothing is sent and the handler is called with \<^verbatim>\<open>FALSE\<close>.
\<close>

lemmas run_defs =
  first_challenge_def outcome_def features_cb_def challenge_cb_def success_cb_def
  lm_sasl_authenticate_def lm_sasl_start_def digest_md5_handle_challenge_def
  digest_md5_send_initial_response_def digest_md5_check_server_response_def
  md5_prepare_response_def md5_hex_hash_def hex_byte_def hex_digit_def
  example_defs step_defs parse_defs Let_def

lemma run_digest_md5_success:
  "outcome (deliver_all example_primitives example_world
     [(Features (Some (mechanisms_node [''DIGEST-MD5''])), ''cn'', True),
      (Challenge first_challenge, ''OA6MHXh6VqTrRk'', True),
      (Challenge (sasl_node (Some ''b64:rspauth=63363536663230373662353237323534'')),
         ''cn'', True),
      (Success (sasl_node None), ''cn'', True)])
   = Inr ([(True, None)], SASL_AUTH_STATE_DIGEST_MD5_SENT_FINAL_RESPONSE, 3)"
  by (simp add: run_defs)

lemma run_digest_md5_rspauth_mismatch:
  "outcome (deliver_all example_primitives example_world
     [(Features (Some (mechanisms_node [''DIGEST-MD5''])), ''cn'', True),
      (Challenge first_challenge, ''OA6MHXh6VqTrRk'', True),
      (Challenge (sasl_node (Some ''b64:rspauth=00'')), ''cn'', True)])
   = Inr ([(True, Some ''server error'')], SASL_AUTH_STATE_DIGEST_MD5_SENT_AUTH_RESPONSE, 2)"
  by (simp add: run_defs)

lemma run_plain_without_password:
  "outcome (deliver_all example_primitives (lm_sasl_new (Some ''chris'') None None True)
     [(Features (Some (mechanisms_node [''PLAIN''])), ''cn'', True)])
   = Inr ([(False, Some ''no username/password provided'')], SASL_AUTH_STATE_PLAIN_STARTED, 0)"
  by (simp add: run_defs)

end
